theory Spec2Isabelle
  imports Complex_Main
begin

section \<open>Values of the host language\<close>

text \<open>
  The selection value, the argument values and the response payload are untyped
  JavaScript values. The model keeps the shapes the compiler distinguishes: the
  primitives, arrays, plain objects (an association list held in the order in which
  \<^verbatim>\<open>Object.entries\<close> enumerates the keys), \<^verbatim>\<open>Date\<close> objects (with their validity),
  symbols, and the two marker classes \<^verbatim>\<open>ObjectEnumValue\<close> and \<^verbatim>\<open>FieldRefImpl\<close>.
  Numbers are the integral ones; only own enumerable properties are read.
\<close>

datatype jsval =
    JUndefined
  | JNull
  | JBool bool
  | JNum int
  | JStr string
  | JArr "jsval list"
  | JObj "(string \<times> jsval) list"
  | JDate bool
  | JSymbol
  | JObjectEnum string
  | JFieldRef string

datatype jserror = TypeError

text \<open>
  A computation of the compiler returns a value, throws, or (in the model only) runs
  out of the fuel that bounds its recursion depth.
\<close>

datatype 'a res = Ok 'a | Throw jserror | OutOfFuel

fun rbind :: "'a res \<Rightarrow> ('a \<Rightarrow> 'b res) \<Rightarrow> 'b res" where
  "rbind (Ok x) f = f x"
| "rbind (Throw e) f = Throw e"
| "rbind OutOfFuel f = OutOfFuel"

text \<open>A loop body run over a list: the first throw ends the loop.\<close>

fun rsequence :: "'a res list \<Rightarrow> 'a list res" where
  "rsequence [] = Ok []"
| "rsequence (r # rs) = rbind r (\<lambda>x. rbind (rsequence rs) (\<lambda>xs. Ok (x # xs)))"

fun truthy :: "jsval \<Rightarrow> bool" where
  "truthy JUndefined = False"
| "truthy JNull = False"
| "truthy (JBool b) = b"
| "truthy (JNum n) = (n \<noteq> 0)"
| "truthy (JStr s) = (s \<noteq> [])"
| "truthy _ = True"

fun typeof :: "jsval \<Rightarrow> string" where
  "typeof JUndefined = ''undefined''"
| "typeof (JBool b) = ''boolean''"
| "typeof (JNum n) = ''number''"
| "typeof (JStr s) = ''string''"
| "typeof JSymbol = ''symbol''"
| "typeof _ = ''object''"

fun isArray :: "jsval \<Rightarrow> bool" where
  "isArray (JArr xs) = True"
| "isArray _ = False"

fun nullish :: "jsval \<Rightarrow> bool" where
  "nullish JUndefined = True"
| "nullish JNull = True"
| "nullish _ = False"

text \<open>\<^verbatim>\<open>String(index)\<close> for an array index.\<close>

definition digitChar :: "nat \<Rightarrow> char" where
  "digitChar d = ''0123456789'' ! d"

fun showNat :: "nat \<Rightarrow> string" where
  "showNat n = (if n < 10 then [digitChar n] else showNat (n div 10) @ [digitChar (n mod 10)])"

declare showNat.simps [simp del]

definition isDigit :: "char \<Rightarrow> bool" where
  "isDigit c = (c \<in> set ''0123456789'')"

definition digitVal :: "char \<Rightarrow> nat" where
  "digitVal c = length (takeWhile (\<lambda>d. d \<noteq> c) ''0123456789'')"

text \<open>A property key that is a canonical array index.\<close>

definition parseIndex :: "string \<Rightarrow> nat option" where
  "parseIndex s =
     (if s = [] \<or> \<not> list_all isDigit s \<or> (length s > 1 \<and> hd s = CHR ''0'') then None
      else Some (foldl (\<lambda>acc c. 10 * acc + digitVal c) 0 s))"

text \<open>\<^verbatim>\<open>Object.entries(v)\<close> for a value that is neither null nor undefined.\<close>

fun entries :: "jsval \<Rightarrow> (string \<times> jsval) list" where
  "entries (JObj kvs) = kvs"
| "entries (JArr xs) = zip (map showNat [0..<length xs]) xs"
| "entries (JStr s) = zip (map showNat [0..<length s]) (map (\<lambda>c. JStr [c]) s)"
| "entries _ = []"

text \<open>\<^verbatim>\<open>v[k]\<close> for a value that is neither null nor undefined.\<close>

fun getProp :: "jsval \<Rightarrow> string \<Rightarrow> jsval" where
  "getProp (JObj kvs) k = (case map_of kvs k of Some v \<Rightarrow> v | None \<Rightarrow> JUndefined)"
| "getProp (JArr xs) k =
     (case parseIndex k of
        Some i \<Rightarrow> if i < length xs then xs ! i else JUndefined
      | None \<Rightarrow> JUndefined)"
| "getProp (JStr s) k =
     (case parseIndex k of
        Some i \<Rightarrow> if i < length s then JStr [s ! i] else JUndefined
      | None \<Rightarrow> JUndefined)"
| "getProp _ k = JUndefined"

text \<open>\<^verbatim>\<open>Object.entries\<close> throws on null and undefined.\<close>

definition entriesOf :: "jsval \<Rightarrow> (string \<times> jsval) list res" where
  "entriesOf v = (if nullish v then Throw TypeError else Ok (entries v))"

text \<open>\<^verbatim>\<open>name.includes(part)\<close> on strings.\<close>

fun startsWith :: "string \<Rightarrow> string \<Rightarrow> bool" where
  "startsWith s [] = True"
| "startsWith [] (p # ps) = False"
| "startsWith (c # cs) (p # ps) = (c = p \<and> startsWith cs ps)"

fun strIncludes :: "string \<Rightarrow> string \<Rightarrow> bool" where
  "strIncludes [] part = (part = [])"
| "strIncludes (c # cs) part = (startsWith (c # cs) part \<or> strIncludes cs part)"


section \<open>The schema model\<close>

text \<open>
  The schema descriptor is a read-only input. An input type carries its cardinality
  constraints and its ordered argument list; an argument carries its ordered union of
  candidate input types. A type reference holds the referenced type itself, as the
  descriptor's objects do, next to its declared location.
\<close>

record constraints =
  minNumFields :: "int option"
  maxNumFields :: "int option"
  atLeastFields :: "string list option"

datatype location =
  LScalar | LInputObjectTypes | LOutputObjectTypes | LEnumTypes | LFieldRefTypes

datatype inputType =
  InputType (itName: string) (itConstraints: constraints) (itFields: "schemaArg list")
    (itMetaSource: "string option")
and schemaArg =
  SchemaArg (saName: string) (saInputTypes: "argInputType list") (saIsRequired: bool)
    (saIsNullable: bool)
and argInputType =
  ArgInputType (aitIsList: bool) (aitType: argType) (aitLocation: location)
and argType =
  AScalar string | AEnum string "string list" | AInput inputType

datatype outputType =
  OutputType (otName: string) (otFields: "schemaField list")
and schemaField =
  SchemaField (sfName: string) (sfArgs: "schemaArg list") (sfOutputType: outputTypeRef)
and outputTypeRef =
  OutputTypeRef (otrIsList: bool) (otrType: outType) (otrLocation: location)
    (otrNamespace: "string option")
and outType =
  OScalar string | OEnum string "string list" | OObject outputType

text \<open>\<^verbatim>\<open>isInputArgType\<close>: an object that is not an enum (has no \<^verbatim>\<open>values\<close>).\<close>

fun isInputArgType :: "argType \<Rightarrow> bool" where
  "isInputArgType (AInput t) = True"
| "isInputArgType _ = False"

record dmmfHelper =
  queryType :: outType
  mutationType :: outType
  typeMap :: "string list"

record makeDocumentContext =
  modelName :: "string option"

section \<open>The tree model\<close>

text \<open>
  Error payloads keep what the compiler and the scoring read: the error kind, the
  names, the provided value, the name of the owning input type of an unknown argument
  name, and whether a missing argument is required. The suggestion texts and the schema
  handles carried for rendering are left out.
\<close>

datatype fieldError =
    InvalidFieldName string string bool bool
  | InvalidFieldType string string jsval
  | EmptySelect
  | EmptyInclude
  | NoTrueSelect
  | IncludeAndSelect

datatype argError =
    InvalidName string jsval string
  | InvalidType string jsval
  | InvalidNullArg string
  | InvalidDateArg string
  | MissingArg string bool bool bool
  | AtLeastOne string
  | AtMostOne string "string list"

datatype pkey = PStr string | PNum nat

type_synonym argErrorEntry = "pkey list \<times> argError"

type_synonym fieldErrorEntry = "pkey list \<times> fieldError"

datatype arg =
  Arg (argKey: string) (argVal: argValue) (argErr: "argError option")
    (argIT: "argInputType option")
and argValue = VRaw jsval | VArgs args | VList "argItem list"
and argItem = IRaw jsval | IArg arg | IArgs args
and args = Args (argList: "arg list")

datatype field =
  Field (fieldName: string) (fieldArgs: "args option") (fieldChildren: "field list option")
    (fieldErr: "fieldError option") (fieldSchema: "schemaField option")

datatype opKind = Query | Mutation

record document =
  docType :: opKind
  docChildren :: "field list"

text \<open>
  The constructor of \<^verbatim>\<open>Arg\<close> unwraps an \<^verbatim>\<open>ObjectEnumValue\<close> to its name. The
  flags \<^verbatim>\<open>hasError\<close>, \<^verbatim>\<open>hasInvalidArg\<close> and \<^verbatim>\<open>hasInvalidChild\<close> are computed by
  the constructors from the children and never written again, so they are functions of
  the node.
\<close>

definition newArg :: "string \<Rightarrow> argValue \<Rightarrow> argError option \<Rightarrow> argInputType option \<Rightarrow> arg" where
  "newArg k v e it =
     Arg k (case v of VRaw (JObjectEnum n) \<Rightarrow> VRaw (JStr n) | _ \<Rightarrow> v) e it"

fun hasError :: "arg \<Rightarrow> bool"
  and valueHasError :: "argValue \<Rightarrow> bool"
  and itemHasError :: "argItem \<Rightarrow> bool"
  and hasInvalidArg :: "args \<Rightarrow> bool" where
  "hasError (Arg k v e it) = (e \<noteq> None \<or> valueHasError v)"
| "valueHasError (VRaw x) = False"
| "valueHasError (VArgs a) = hasInvalidArg a"
| "valueHasError (VList xs) = list_ex itemHasError xs"
| "itemHasError (IRaw x) = False"
| "itemHasError (IArg a) = hasError a"
| "itemHasError (IArgs a) = hasInvalidArg a"
| "hasInvalidArg (Args xs) = list_ex hasError xs"

definition fieldHasInvalidArg :: "field \<Rightarrow> bool" where
  "fieldHasInvalidArg f = (case fieldArgs f of Some a \<Rightarrow> hasInvalidArg a | None \<Rightarrow> False)"

fun hasInvalidChild :: "field \<Rightarrow> bool" where
  "hasInvalidChild (Field n a cs e sf) =
     (case cs of
        None \<Rightarrow> False
      | Some xs \<Rightarrow>
          list_ex (\<lambda>c. fieldErr c \<noteq> None \<or> fieldHasInvalidArg c \<or> hasInvalidChild c) xs)"

subsection \<open>Collecting the errors\<close>

definition prefixPath :: "pkey list \<Rightarrow> (pkey list \<times> 'e) \<Rightarrow> (pkey list \<times> 'e)" where
  "prefixPath pre e = (pre @ fst e, snd e)"

fun arg_collectErrors :: "arg \<Rightarrow> argErrorEntry list"
  and items_collectErrors :: "string \<Rightarrow> nat \<Rightarrow> argItem list \<Rightarrow> argErrorEntry list"
  and args_collectErrors :: "args \<Rightarrow> argErrorEntry list" where
  "arg_collectErrors (Arg k v e it) =
     (if \<not> hasError (Arg k v e it) then []
      else
        (case e of Some err \<Rightarrow> [([PStr k], err)] | None \<Rightarrow> []) @
        (case v of
           VList xs \<Rightarrow> items_collectErrors k 0 xs
         | VArgs a \<Rightarrow> map (prefixPath [PStr k]) (args_collectErrors a)
         | VRaw x \<Rightarrow> []))"
| "items_collectErrors k i [] = []"
| "items_collectErrors k i (x # xs) =
     (case x of
        IArgs a \<Rightarrow> map (prefixPath [PStr k, PStr (showNat i)]) (args_collectErrors a)
      | IArg a \<Rightarrow> map (prefixPath [PStr k]) (arg_collectErrors a)
      | IRaw r \<Rightarrow> []) @ items_collectErrors k (Suc i) xs"
| "args_collectErrors (Args xs) =
     (if \<not> hasInvalidArg (Args xs) then [] else concat (map arg_collectErrors xs))"

fun field_collectErrors :: "string \<Rightarrow> field \<Rightarrow> fieldErrorEntry list \<times> argErrorEntry list" where
  "field_collectErrors prefix (Field n a cs e sf) =
     (let own = (case e of Some err \<Rightarrow> [([PStr n], err)] | None \<Rightarrow> []);
          sub = (case cs of None \<Rightarrow> [] | Some xs \<Rightarrow> map (field_collectErrors prefix) xs)
      in (own @ concat (map (\<lambda>r. map (prefixPath [PStr n, PStr prefix]) (fst r)) sub),
          concat (map (\<lambda>r. map (prefixPath [PStr n, PStr prefix]) (snd r)) sub) @
          (case a of
             Some xs \<Rightarrow> map (prefixPath [PStr n]) (args_collectErrors xs)
           | None \<Rightarrow> [])))"


section \<open>Validation of a compiled document\<close>

text \<open>
  \<^verbatim>\<open>Document.validate\<close> returns when no root field is flagged and otherwise throws
  \<^verbatim>\<open>PrismaClientValidationError\<close>. The model keeps the collected diagnostics the
  error is rendered from; the rendering of the message text is a collaborator outside
  the compiler.
\<close>

datatype validationOutcome =
    Returned
  | PrismaClientValidationError "fieldErrorEntry list" "argErrorEntry list"

definition slicePath :: "bool \<Rightarrow> (pkey list \<times> 'e) \<Rightarrow> (pkey list \<times> 'e)" where
  "slicePath isTopLevelQuery e = ((if isTopLevelQuery then fst e else drop 1 (fst e)), snd e)"

definition validate :: "document \<Rightarrow> jsval \<Rightarrow> bool \<Rightarrow> validationOutcome" where
  "validate doc select0 isTopLevelQuery =
     (let select = (if \<not> truthy select0 then JObj [] else select0);
          invalidChildren =
            filter (\<lambda>child. hasInvalidChild child \<or> fieldHasInvalidArg child) (docChildren doc)
      in if length invalidChildren = 0 then Returned
         else
           (let prefix =
                  (if truthy (getProp select ''select'') then ''select''
                   else if truthy (getProp select ''include'') then ''include''
                   else ''select'');
                errors = map (field_collectErrors prefix) invalidChildren
            in PrismaClientValidationError
                 (concat (map (\<lambda>r. map (slicePath isTopLevelQuery) (fst r)) errors))
                 (concat (map (\<lambda>r. map (slicePath isTopLevelQuery) (snd r)) errors))))"

subsection \<open>Path normalization\<close>

definition keyString :: "pkey \<Rightarrow> string" where
  "keyString k = (case k of PStr s \<Rightarrow> s | PNum n \<Rightarrow> showNat n)"

text \<open>
  The loop of \<^verbatim>\<open>normalizePath\<close>: \<^verbatim>\<open>pointer\<close> walks the caller's selection next to
  the path. Reading a property of a null or undefined pointer throws.
\<close>

fun normalizePath_loop :: "pkey list \<Rightarrow> jsval \<Rightarrow> pkey list \<Rightarrow> pkey list res" where
  "normalizePath_loop [] pointer newPath = Ok newPath"
| "normalizePath_loop (k # path) pointer newPath =
     (if \<not> isArray pointer \<and> k = PNum 0 then normalizePath_loop path pointer newPath
      else if k = PStr ''select'' then
        (if nullish pointer then Throw TypeError
         else if \<not> truthy (getProp pointer ''select'')
           then normalizePath_loop path (getProp pointer ''include'') (newPath @ [k])
           else normalizePath_loop path (getProp pointer ''select'') (newPath @ [k]))
      else if truthy pointer \<and> truthy (getProp pointer (keyString k))
        then normalizePath_loop path (getProp pointer (keyString k)) (newPath @ [k])
        else normalizePath_loop path pointer (newPath @ [k]))"

definition normalizePath :: "pkey list \<Rightarrow> jsval \<Rightarrow> pkey list res" where
  "normalizePath inputPath select = normalizePath_loop inputPath select []"

text \<open>The path as the diagnostics print it: \<^verbatim>\<open>path.join('.')\<close>.\<close>

fun joinPath :: "pkey list \<Rightarrow> string" where
  "joinPath [] = []"
| "joinPath [k] = keyString k"
| "joinPath (k # ks) = keyString k @ ''.'' @ joinPath ks"

section \<open>Collaborators outside the compiler's source file\<close>

text \<open>
  The helpers the compiler imports from other modules, the coercions of the host's
  library, and its arithmetic on numbers are parameters of the model. The scores of the
  union resolution are numbers of the host; the model computes them in any linearly
  ordered type with an addition and a multiplication, given \<^verbatim>\<open>Math.exp\<close>,
  \<^verbatim>\<open>Math.log\<close> and the embedding of the counts.
\<close>

record 'n env =
  filterObject :: "jsval \<Rightarrow> (string \<Rightarrow> jsval \<Rightarrow> bool) \<Rightarrow> jsval"
  omit :: "jsval \<Rightarrow> string list \<Rightarrow> jsval"
  unionBy :: "(string \<times> jsval) list \<Rightarrow> (string \<times> jsval) list \<Rightarrow> (string \<times> jsval) list"
  isObject :: "jsval \<Rightarrow> bool"
  deepExtend :: "jsval \<Rightarrow> jsval \<Rightarrow> jsval"
  getGraphQLType :: "jsval \<Rightarrow> argInputType \<Rightarrow> string"
  stringifyGraphQLType :: "argType \<Rightarrow> string"
  wrapWithList :: "string \<Rightarrow> bool \<Rightarrow> string"
  isGroupByOutputName :: "string \<Rightarrow> bool"
  isDate :: "jsval \<Rightarrow> bool"
  isValidDate :: "jsval \<Rightarrow> bool"
  getAllComputedFields :: "string \<Rightarrow> string list"
  applyComputedFieldsToSelection :: "jsval \<Rightarrow> string list \<Rightarrow> jsval"
  toPropertyKey :: "jsval \<Rightarrow> string"
  mathExp :: "nat \<Rightarrow> 'n"
  mathLog :: "nat \<Rightarrow> 'n"
  ofNat :: "nat \<Rightarrow> 'n"

definition cleanObject :: "'n env \<Rightarrow> jsval \<Rightarrow> jsval" where
  "cleanObject env obj = filterObject env obj (\<lambda>k v. v \<noteq> JUndefined)"

text \<open>\<^verbatim>\<open>Object.keys(v || {})\<close>.\<close>

definition keysOrEmpty :: "jsval \<Rightarrow> string list" where
  "keysOrEmpty v = (if truthy v then map fst (entries v) else [])"

definition modelNameTruthy :: "makeDocumentContext \<Rightarrow> bool" where
  "modelNameTruthy ctx = (case modelName ctx of Some s \<Rightarrow> s \<noteq> [] | None \<Rightarrow> False)"

section \<open>The argument inference engine\<close>

subsection \<open>Scalar subtype compatibility\<close>

text \<open>
  \<^verbatim>\<open>isDecimalString\<close>: the whole string matches
  \<^verbatim>\<open>/^\-?(\d+(\.\d*)?|\.\d+)(e[+-]?\d+)?$/i\<close>. The matcher reads the string from the
  left; each part of the pattern can match in one way only.
\<close>

definition dropSign :: "string \<Rightarrow> string list \<Rightarrow> string" where
  "dropSign s signs = (case s of [] \<Rightarrow> [] | c # cs \<Rightarrow> if [c] \<in> set signs then cs else s)"

definition matchExponent :: "string \<Rightarrow> bool" where
  "matchExponent s =
     (case s of
        [] \<Rightarrow> True
      | c # cs \<Rightarrow>
          (c = CHR ''e'' \<or> c = CHR ''E'') \<and>
          (let ds = dropSign cs [''+'', ''-''] in ds \<noteq> [] \<and> list_all isDigit ds))"

definition matchDecimal :: "string \<Rightarrow> bool" where
  "matchDecimal s =
     (let body = dropSign s [''-''];
          intPart = takeWhile isDigit body;
          afterInt = dropWhile isDigit body
      in if intPart \<noteq> [] then
           (case afterInt of
              c # cs \<Rightarrow>
                if c = CHR ''.'' then matchExponent (dropWhile isDigit cs)
                else matchExponent afterInt
            | [] \<Rightarrow> True)
         else
           (case afterInt of
              c # cs \<Rightarrow>
                c = CHR ''.'' \<and> takeWhile isDigit cs \<noteq> [] \<and> matchExponent (dropWhile isDigit cs)
            | [] \<Rightarrow> False))"

fun isDecimalString :: "jsval \<Rightarrow> bool" where
  "isDecimalString (JStr s) = matchDecimal s"
| "isDecimalString _ = False"

fun isObjectEnumValue :: "jsval \<Rightarrow> bool" where
  "isObjectEnumValue (JObjectEnum n) = True"
| "isObjectEnumValue _ = False"

fun isFieldRefImpl :: "jsval \<Rightarrow> bool" where
  "isFieldRefImpl (JFieldRef n) = True"
| "isFieldRefImpl _ = False"

fun arrayElems :: "jsval \<Rightarrow> jsval list" where
  "arrayElems (JArr xs) = xs"
| "arrayElems _ = []"

definition getExpectedType :: "'n env \<Rightarrow> argInputType \<Rightarrow> makeDocumentContext \<Rightarrow> string" where
  "getExpectedType env it ctx =
     wrapWithList env
       (stringifyGraphQLType env (aitType it) @
        (if aitLocation it = LFieldRefTypes \<and> modelNameTruthy ctx
         then ''<'' @ the (modelName ctx) @ ''>'' else []))
       (aitIsList it)"

definition scalarType :: "argInputType \<Rightarrow> argInputType" where
  "scalarType listType = ArgInputType False (aitType listType) (aitLocation listType)"

function hasCorrectScalarType :: "'n env \<Rightarrow> jsval \<Rightarrow> argInputType \<Rightarrow> makeDocumentContext \<Rightarrow> bool" where
  "hasCorrectScalarType env v it ctx =
     (let expectedType = getExpectedType env it ctx;
          graphQLType = getGraphQLType env v it
      in if graphQLType = expectedType then True
         else if aitIsList it \<and> graphQLType = ''List<>'' then True
         else if expectedType = ''Json'' \<and> graphQLType \<noteq> ''Symbol'' \<and>
                 \<not> isObjectEnumValue v \<and> \<not> isFieldRefImpl v then True
         else if graphQLType = ''Int'' \<and> expectedType = ''BigInt'' then True
         else if (graphQLType = ''Int'' \<or> graphQLType = ''Float'') \<and> expectedType = ''Decimal''
           then True
         else if graphQLType = ''DateTime'' \<and> expectedType = ''String'' then True
         else if graphQLType = ''UUID'' \<and> expectedType = ''String'' then True
         else if graphQLType = ''String'' \<and> expectedType = ''ID'' then True
         else if graphQLType = ''Int'' \<and> expectedType = ''Float'' then True
         else if graphQLType = ''Int'' \<and> expectedType = ''Long'' then True
         else if graphQLType = ''String'' \<and> expectedType = ''Decimal'' \<and> isDecimalString v
           then True
         else if v = JNull then True
         else if aitIsList it \<and> isArray v
           then list_all (\<lambda>x. hasCorrectScalarType env x (scalarType it) ctx) (arrayElems v)
         else False)"
  by pat_completeness auto
termination
  by (relation "measure (\<lambda>(env, v, it, ctx). if aitIsList it then 1 else 0)")
    (auto simp: scalarType_def)

declare hasCorrectScalarType.simps [simp del]


subsection \<open>Compiling one value against one candidate type\<close>

definition getInvalidTypeArg :: "string \<Rightarrow> jsval \<Rightarrow> schemaArg \<Rightarrow> argInputType \<Rightarrow> arg" where
  "getInvalidTypeArg k v sa bestFittingType =
     newArg k (VRaw v) (Some (InvalidType k v)) (Some bestFittingType)"

definition scalarOnlyArg :: "schemaArg \<Rightarrow> schemaArg" where
  "scalarOnlyArg sa =
     SchemaArg (saName sa) (filter (\<lambda>it. \<not> aitIsList it) (saInputTypes sa))
       (saIsRequired sa) (saIsNullable sa)"

definition scalarToArg ::
  "'n env \<Rightarrow> string \<Rightarrow> jsval \<Rightarrow> schemaArg \<Rightarrow> argInputType \<Rightarrow> makeDocumentContext \<Rightarrow> arg" where
  "scalarToArg env k v sa it ctx =
     (if isDate env v \<and> \<not> isValidDate env v
        then newArg k (VRaw v) (Some (InvalidDateArg k)) (Some it)
      else if hasCorrectScalarType env v it ctx then newArg k (VRaw v) None (Some it)
      else getInvalidTypeArg k v sa it)"

text \<open>The constraints of a type used as an input object type; a scalar name has none.\<close>

fun constraintsOf :: "argType \<Rightarrow> constraints option" where
  "constraintsOf (AInput t) = Some (itConstraints t)"
| "constraintsOf _ = None"

definition minPositive :: "constraints option \<Rightarrow> bool" where
  "minPositive c =
     (case c of
        Some cs \<Rightarrow> (case minNumFields cs of Some m \<Rightarrow> m > 0 | None \<Rightarrow> False)
      | None \<Rightarrow> False)"

definition maxBelowTwo :: "constraints option \<Rightarrow> bool" where
  "maxBelowTwo c =
     (case c of
        Some cs \<Rightarrow> (case maxNumFields cs of Some m \<Rightarrow> m < 2 | None \<Rightarrow> False)
      | None \<Rightarrow> False)"

text \<open>
  Lines 1491 to 1496: a value that is not a list is wrapped for a list-shaped type,
  unless the key is \<^verbatim>\<open>updateMany\<close>.
\<close>

definition wrapForList :: "string \<Rightarrow> jsval \<Rightarrow> argInputType \<Rightarrow> jsval" where
  "wrapForList k v it =
     (if \<not> isArray v \<and> aitIsList it then (if k \<noteq> ''updateMany'' then JArr [v] else v)
      else v)"

text \<open>
  The loop over \<^verbatim>\<open>arg.inputTypes\<close> at lines 1530 to 1543: the first candidate whose
  compiled arguments collect no error is returned.
\<close>

fun firstClean :: "(argInputType \<times> args res) list \<Rightarrow> (argInputType \<times> args) option res" where
  "firstClean [] = Ok None"
| "firstClean ((it, r) # rest) =
     rbind r (\<lambda>a. if length (args_collectErrors a) = 0 then Ok (Some (it, a))
                    else firstClean rest)"

subsection \<open>Scoring the failing candidates of a union\<close>

fun getDepth :: "jsval \<Rightarrow> nat" where
  "getDepth (JObj kvs) =
     foldl (\<lambda>level kv. if typeof (snd kv) = ''object'' then max (getDepth (snd kv) + 1) level
                         else level) 1 kvs"
| "getDepth (JArr xs) =
     foldl (\<lambda>level x. if typeof x = ''object'' then max (getDepth x + 1) level else level) 1 xs"
| "getDepth _ = 1"

definition uncheckedCandidate :: "arg \<Rightarrow> bool" where
  "uncheckedCandidate a =
     (case argIT a of
        Some it \<Rightarrow>
          (case aitType it of AInput t \<Rightarrow> strIncludes (itName t) ''Unchecked'' | _ \<Rightarrow> False)
      | None \<Rightarrow> False)"

definition errorScore :: "('n::{plus,times,linorder}) env \<Rightarrow> arg \<Rightarrow> argErrorEntry \<Rightarrow> 'n" where
  "errorScore env a e =
     (let score0 =
            (case snd e of
               InvalidType k v \<Rightarrow> ofNat env 2 * mathExp env (getDepth v) + ofNat env 1
             | _ \<Rightarrow> ofNat env 1);
          score1 = score0 + mathLog env (length (fst e));
          score2 =
            (case snd e of
               MissingArg k r l m \<Rightarrow> if uncheckedCandidate a then score1 * ofNat env 2 else score1
             | _ \<Rightarrow> score1);
          score3 =
            (case snd e of
               InvalidName k v tn \<Rightarrow>
                 if strIncludes tn ''Unchecked'' then score2 * ofNat env 2 else score2
             | _ \<Rightarrow> score2)
      in score3)"

definition candidateScore ::
  "('n::{plus,times,linorder}) env \<Rightarrow> arg \<times> argErrorEntry list \<Rightarrow> 'n" where
  "candidateScore env c =
     ofNat env (length (snd c)) +
     foldl (\<lambda>acc curr. acc + curr) (ofNat env 0) (map (errorScore env (fst c)) (snd c))"

text \<open>
  \<^verbatim>\<open>argsWithScores.sort((a, b) => (a.score < b.score ? -1 : 1))\<close>: the array is
  sorted by insertion from the left, a later element going behind the elements it is
  not smaller than.
\<close>

fun insertByScore :: "('a \<Rightarrow> 'n::linorder) \<Rightarrow> 'a \<Rightarrow> 'a list \<Rightarrow> 'a list" where
  "insertByScore sc x [] = [x]"
| "insertByScore sc x (y # ys) =
     (if sc x < sc y then x # y # ys else y # insertByScore sc x ys)"

definition sortByScore :: "('a \<Rightarrow> 'n::linorder) \<Rightarrow> 'a list \<Rightarrow> 'a list" where
  "sortByScore sc xs = foldl (\<lambda>acc x. insertByScore sc x acc) [] xs"

text \<open>
  The candidate loop of \<^verbatim>\<open>valueToArg\<close> over the results of \<^verbatim>\<open>tryInferArgs\<close>, in
  declaration order. The flag tells that the loop returned from inside; a candidate
  behind the returned one is never run, so its result is not read.
\<close>

fun candidateLoop ::
  "arg option res list \<Rightarrow> arg option \<Rightarrow> (arg \<times> argErrorEntry list) list \<Rightarrow>
   (bool \<times> arg option \<times> (arg \<times> argErrorEntry list) list) res" where
  "candidateLoop [] maybeArg argsWithErrors = Ok (False, maybeArg, argsWithErrors)"
| "candidateLoop (r # rs) maybeArg argsWithErrors =
     rbind r (\<lambda>m.
       case m of
         None \<Rightarrow> candidateLoop rs None argsWithErrors
       | Some a \<Rightarrow>
           if length (arg_collectErrors a) = 0 then Ok (True, Some a, argsWithErrors)
           else candidateLoop rs (Some a) (argsWithErrors @ [(a, arg_collectErrors a)]))"

definition pickCandidate ::
  "('n::{plus,times,linorder}) env \<Rightarrow> bool \<times> arg option \<times> (arg \<times> argErrorEntry list) list \<Rightarrow>
   arg option" where
  "pickCandidate env st =
     (case st of (returned, maybeArg, argsWithErrors) \<Rightarrow>
        if returned then maybeArg
        else if (case maybeArg of Some a \<Rightarrow> hasError a | None \<Rightarrow> False) \<and>
                length argsWithErrors > 0
          then Some (fst (hd (sortByScore (candidateScore env) argsWithErrors)))
        else maybeArg)"

subsection \<open>The mutually recursive compilation\<close>

definition isMissingOrAtLeastOne :: "arg \<Rightarrow> bool" where
  "isMissingOrAtLeastOne a =
     (case argErr a of
        Some (MissingArg k r l m) \<Rightarrow> True
      | Some (AtLeastOne k) \<Rightarrow> True
      | _ \<Rightarrow> False)"

text \<open>The informational entry of an optional argument that is absent (lines 1692 to 1707).\<close>

definition optionalMissingArg :: "constraints \<Rightarrow> schemaArg \<Rightarrow> arg res" where
  "optionalMissingArg cs sa =
     (case saInputTypes sa of
        [] \<Rightarrow> Throw TypeError
      | argInputType # rest \<Rightarrow>
          Ok (newArg (saName sa) (VRaw JUndefined)
                (Some (MissingArg (saName sa) (saIsRequired sa)
                   (case minNumFields cs of Some m \<Rightarrow> m \<noteq> 0 | None \<Rightarrow> False)
                   (maxNumFields cs = Some 1)))
                (Some argInputType)))"

text \<open>
  The three functions call each other. Each body is stated over the function it calls,
  and the recursion ties them together below; the fuel counts the nesting of the calls.
\<close>

definition tryInferArgs_object ::
  "('n::{plus,times,linorder}) env \<Rightarrow> (jsval \<Rightarrow> argType \<Rightarrow> makeDocumentContext \<Rightarrow> args res) \<Rightarrow>
   string \<Rightarrow> jsval \<Rightarrow> schemaArg \<Rightarrow> argInputType \<Rightarrow> makeDocumentContext \<Rightarrow> arg option res" where
  "tryInferArgs_object env objectToArgs_rec k v sa it ctx =
     (if typeof v \<noteq> ''object'' \<or> isArray v \<or>
         (aitLocation it = LInputObjectTypes \<and> \<not> isObject env v)
        then Ok (Some (getInvalidTypeArg k v sa it))
      else
        (let val = cleanObject env v;
             keys = keysOrEmpty val;
             numKeys = length keys;
             cs = the (constraintsOf (aitType it));
             err =
               (if (numKeys = 0 \<and> minPositive (Some cs)) \<or>
                   (case atLeastFields cs of
                      Some fs \<Rightarrow> \<not> list_ex (\<lambda>f. f \<in> set keys) fs
                    | None \<Rightarrow> False)
                  then Some (AtLeastOne k)
                else if numKeys > 1 \<and> maxBelowTwo (Some cs) then Some (AtMostOne k keys)
                else None)
         in if val = JNull then Ok (Some (newArg k (VRaw JNull) err (Some it)))
            else rbind (objectToArgs_rec val (aitType it) ctx)
                   (\<lambda>a. Ok (Some (newArg k (VArgs a) err (Some it))))))"

text \<open>
  One element of the list at lines 1547 to 1555: a value that is not an object stays as
  it is, a nested list is a type mismatch, an object is compiled.
\<close>

definition tryInferArgs_item ::
  "(jsval \<Rightarrow> argType \<Rightarrow> makeDocumentContext \<Rightarrow> args res) \<Rightarrow> jsval \<Rightarrow> schemaArg \<Rightarrow>
   argInputType \<Rightarrow> makeDocumentContext \<Rightarrow> nat \<times> jsval \<Rightarrow> argItem res" where
  "tryInferArgs_item objectToArgs_rec w sa it ctx ix =
     (if aitIsList it \<and> typeof (snd ix) \<noteq> ''object'' then Ok (IRaw (snd ix))
      else if typeof (snd ix) \<noteq> ''object'' \<or> \<not> truthy w \<or> isArray (snd ix)
        then Ok (IArg (getInvalidTypeArg (showNat (fst ix)) (snd ix)
                         (scalarOnlyArg sa) (scalarType it)))
      else rbind (objectToArgs_rec (snd ix) (aitType it) ctx) (\<lambda>a. Ok (IArgs a)))"

text \<open>
  The list-shaped part of \<^verbatim>\<open>tryInferArgs\<close> from line 1498 on, for the value \<open>w\<close>
  after the wrapping. Calling \<^verbatim>\<open>map\<close> on a value that is not an array throws.
\<close>

definition tryInferArgs_list ::
  "('n::{plus,times,linorder}) env \<Rightarrow> (jsval \<Rightarrow> argType \<Rightarrow> makeDocumentContext \<Rightarrow> args res) \<Rightarrow>
   string \<Rightarrow> jsval \<Rightarrow> schemaArg \<Rightarrow> argInputType \<Rightarrow> makeDocumentContext \<Rightarrow> arg option res" where
  "tryInferArgs_list env objectToArgs_rec k w sa it ctx =
     (if aitLocation it = LEnumTypes \<or> aitLocation it = LScalar
        then Ok (Some (scalarToArg env k w sa it ctx))
      else
        (let cs = constraintsOf (aitType it);
             hasAtLeastOneError =
               (if minPositive cs
                  then isArray w \<and>
                       list_ex (\<lambda>x. \<not> truthy x \<or> length (map fst (entries (cleanObject env x))) = 0)
                         (arrayElems w)
                else False);
             hasOneOfError =
               (if maxBelowTwo cs \<and> isArray w
                  then find (\<lambda>x. \<not> truthy x \<or> length (map fst (entries (cleanObject env x))) \<noteq> 1)
                         (arrayElems w)
                else None);
             err =
               (if hasAtLeastOneError then Some (AtLeastOne k)
                else (case hasOneOfError of
                        Some x \<Rightarrow>
                          if truthy x then Some (AtMostOne k (map fst (entries x))) else None
                      | None \<Rightarrow> None))
         in rbind
              (if \<not> isArray w
                 then firstClean
                        (map (\<lambda>nested. (nested, objectToArgs_rec w (aitType nested) ctx))
                           (saInputTypes sa))
               else Ok None)
              (\<lambda>found.
                 case found of
                   Some (nested, a) \<Rightarrow> Ok (Some (newArg k (VArgs a) None (Some nested)))
                 | None \<Rightarrow>
                     if \<not> isArray w then Throw TypeError
                     else
                       rbind
                         (rsequence
                            (map (tryInferArgs_item objectToArgs_rec w sa it ctx)
                               (zip [0..<length (arrayElems w)] (arrayElems w))))
                         (\<lambda>items. Ok (Some (newArg k (VList items) err (Some it)))))))"

definition tryInferArgs_body ::
  "('n::{plus,times,linorder}) env \<Rightarrow> (jsval \<Rightarrow> argType \<Rightarrow> makeDocumentContext \<Rightarrow> args res) \<Rightarrow>
   string \<Rightarrow> jsval \<Rightarrow> schemaArg \<Rightarrow> argInputType \<Rightarrow> makeDocumentContext \<Rightarrow> arg option res" where
  "tryInferArgs_body env objectToArgs_rec k v sa it ctx =
     (if typeof v = ''undefined'' then
        (if \<not> saIsRequired sa then Ok None
         else Ok (Some (newArg k (VRaw v)
                    (Some (MissingArg k (saIsRequired sa) False False)) (Some it))))
      else if v = JNull \<and> \<not> saIsNullable sa \<and> \<not> saIsRequired sa \<and>
              \<not> (if isInputArgType (aitType it) then minPositive (constraintsOf (aitType it))
                  else False)
        then Ok (Some (newArg k (VRaw v) (Some (InvalidNullArg k)) (Some it)))
      else if \<not> aitIsList it then
        (if isInputArgType (aitType it)
           then tryInferArgs_object env objectToArgs_rec k v sa it ctx
         else Ok (Some (scalarToArg env k v sa it ctx)))
      else tryInferArgs_list env objectToArgs_rec k (wrapForList k v it) sa it ctx)"

definition valueToArg_body ::
  "('n::{plus,times,linorder}) env \<Rightarrow> (argInputType \<Rightarrow> arg option res) \<Rightarrow> schemaArg \<Rightarrow>
   arg option res" where
  "valueToArg_body env tryInferArgs_rec sa =
     rbind (candidateLoop (map tryInferArgs_rec (saInputTypes sa)) None [])
       (\<lambda>st. Ok (pickCandidate env st))"

text \<open>
  The callback of the reduction in \<^verbatim>\<open>objectToArgs\<close> (lines 1649 to 1681), for one
  key and value: an unknown key gives \<^verbatim>\<open>invalidName\<close>, a known one is compiled, and a
  compilation that returns \<^verbatim>\<open>null\<close> adds nothing.
\<close>

definition objectToArgs_entry ::
  "(string \<Rightarrow> jsval \<Rightarrow> schemaArg \<Rightarrow> makeDocumentContext \<Rightarrow> arg option res) \<Rightarrow> inputType \<Rightarrow>
   makeDocumentContext \<Rightarrow> string \<times> jsval \<Rightarrow> arg option res" where
  "objectToArgs_entry valueToArg_rec t ctx kv =
     (case find (\<lambda>a. saName a = fst kv) (itFields t) of
        None \<Rightarrow>
          Ok (Some (newArg (fst kv) (VRaw (snd kv))
                      (Some (InvalidName (fst kv) (snd kv) (itName t))) None))
      | Some sa \<Rightarrow> valueToArg_rec (fst kv) (snd kv) sa ctx)"

definition objectToArgs_body ::
  "('n::{plus,times,linorder}) env \<Rightarrow>
   (string \<Rightarrow> jsval \<Rightarrow> schemaArg \<Rightarrow> makeDocumentContext \<Rightarrow> arg option res) \<Rightarrow>
   jsval \<Rightarrow> argType \<Rightarrow> makeDocumentContext \<Rightarrow> args res" where
  "objectToArgs_body env valueToArg_rec initialObj tp ctx =
     (case tp of
        AInput t \<Rightarrow>
          (let ctx' =
                 (case itMetaSource t of
                    Some src \<Rightarrow> if src \<noteq> [] then \<lparr>modelName = Some src\<rparr> else ctx
                  | None \<Rightarrow> ctx);
               obj = cleanObject env initialObj;
               requiredArgs = map (\<lambda>a. (saName a, JUndefined)) (itFields t);
               objEntries = (if truthy obj then entries obj else []);
               allEntries = unionBy env objEntries requiredArgs
           in rbind
                (rsequence (map (objectToArgs_entry valueToArg_rec t ctx') allEntries))
                (\<lambda>compiled.
                   let argsList = concat (map (\<lambda>m. case m of Some a \<Rightarrow> [a] | None \<Rightarrow> []) compiled)
                   in if (case minNumFields (itConstraints t) of
                            Some m \<Rightarrow> int (length objEntries) < m
                          | None \<Rightarrow> False) \<or>
                         find isMissingOrAtLeastOne argsList \<noteq> None
                        then
                          rbind
                            (rsequence
                               (map (optionalMissingArg (itConstraints t))
                                  (filter
                                     (\<lambda>f. \<not> saIsRequired f \<and> truthy obj \<and>
                                          (typeof (getProp obj (saName f)) = ''undefined'' \<or>
                                           getProp obj (saName f) = JNull))
                                     (itFields t))))
                            (\<lambda>extra. Ok (Args (argsList @ extra)))
                      else Ok (Args argsList)))
      | _ \<Rightarrow> Throw TypeError)"

fun tryInferArgs ::
    "nat \<Rightarrow> ('n::{plus,times,linorder}) env \<Rightarrow> string \<Rightarrow> jsval \<Rightarrow> schemaArg \<Rightarrow> argInputType \<Rightarrow>
     makeDocumentContext \<Rightarrow> arg option res"
  and valueToArg ::
    "nat \<Rightarrow> 'n env \<Rightarrow> string \<Rightarrow> jsval \<Rightarrow> schemaArg \<Rightarrow> makeDocumentContext \<Rightarrow> arg option res"
  and objectToArgs ::
    "nat \<Rightarrow> 'n env \<Rightarrow> jsval \<Rightarrow> argType \<Rightarrow> makeDocumentContext \<Rightarrow> args res" where
  "tryInferArgs 0 env k v sa it ctx = OutOfFuel"
| "tryInferArgs (Suc n) env k v sa it ctx =
     tryInferArgs_body env (\<lambda>x tp c. objectToArgs n env x tp c) k v sa it ctx"
| "valueToArg 0 env k v sa ctx = OutOfFuel"
| "valueToArg (Suc n) env k v sa ctx =
     valueToArg_body env (\<lambda>it. tryInferArgs n env k v sa it ctx) sa"
| "objectToArgs 0 env initialObj tp ctx = OutOfFuel"
| "objectToArgs (Suc n) env initialObj tp ctx =
     objectToArgs_body env (\<lambda>argName x sa c. valueToArg n env argName x sa c) initialObj tp ctx"


section \<open>The selection compiler\<close>

text \<open>\<^verbatim>\<open>obj[k] = v\<close> on the entries of a plain object: a new key goes last.\<close>

fun setEntry :: "(string \<times> jsval) list \<Rightarrow> string \<Rightarrow> jsval \<Rightarrow> (string \<times> jsval) list" where
  "setEntry [] k v = [(k, v)]"
| "setEntry ((k', v') # kvs) k v =
     (if k' = k then (k, v) # kvs else (k', v') # setEntry kvs k v)"

definition byToSelect :: "'n env \<Rightarrow> jsval list \<Rightarrow> jsval" where
  "byToSelect env by = JObj (foldl (\<lambda>obj b. setEntry obj (toPropertyKey env b) (JBool True)) [] by)"

fun outTypeName :: "outType \<Rightarrow> string option" where
  "outTypeName (OScalar s) = None"
| "outTypeName (OEnum n vs) = Some n"
| "outTypeName (OObject t) = Some (otName t)"

text \<open>
  \<^verbatim>\<open>getDefaultSelection\<close>: every field whose type is named in the type map, and every
  scalar or enum field. Iterating the fields of a type that is not an object type throws.
\<close>

definition getDefaultSelection :: "dmmfHelper \<Rightarrow> outType \<Rightarrow> jsval res" where
  "getDefaultSelection dmmf tp =
     (case tp of
        OObject t \<Rightarrow>
          Ok (JObj
            (foldl
               (\<lambda>acc f.
                  let acc1 =
                        (if (case outTypeName (otrType (sfOutputType f)) of
                               Some nm \<Rightarrow> nm \<in> set (typeMap dmmf)
                             | None \<Rightarrow> False)
                           then setEntry acc (sfName f) (JBool True) else acc)
                  in if otrLocation (sfOutputType f) = LScalar \<or>
                        otrLocation (sfOutputType f) = LEnumTypes
                       then setEntry acc1 (sfName f) (JBool True) else acc1)
               [] (otFields t)))
      | _ \<Rightarrow> Throw TypeError)"

text \<open>A field that carries only an error on a synthetic child (lines 971 to 1085).\<close>

definition containerError :: "string \<Rightarrow> string \<Rightarrow> fieldError \<Rightarrow> field" where
  "containerError nm childName err =
     Field nm None (Some [Field childName (Some (Args [])) None (Some err) None]) None None"

text \<open>\<^verbatim>\<open>entries.reduce(callback, acc)\<close> with a callback that may throw.\<close>

fun reduceFields ::
  "(field list \<Rightarrow> string \<times> jsval \<Rightarrow> field list res) \<Rightarrow> field list \<Rightarrow> (string \<times> jsval) list \<Rightarrow>
   field list res" where
  "reduceFields f acc [] = Ok acc"
| "reduceFields f acc (e # es) = rbind (f acc e) (\<lambda>acc'. reduceFields f acc' es)"

text \<open>
  The tail of the callback of \<^verbatim>\<open>selectionToFields\<close> from line 1091 on: the effective
  child selection, the children and the produced field.
\<close>

definition selectionTail ::
  "'n env \<Rightarrow> dmmfHelper \<Rightarrow> (jsval \<Rightarrow> schemaField \<Rightarrow> makeDocumentContext \<Rightarrow> field list res) \<Rightarrow>
   makeDocumentContext \<Rightarrow> field list \<Rightarrow> string \<Rightarrow> jsval \<Rightarrow> schemaField \<Rightarrow> args option \<Rightarrow>
   field list res" where
  "selectionTail env dmmf selectionToFields_rec ctx acc nm v fld compiledArgs =
     (let ref = sfOutputType fld;
          isRelation = (otrLocation ref = LOutputObjectTypes)
      in rbind (if isRelation then getDefaultSelection dmmf (otrType ref) else Ok JNull)
           (\<lambda>defaultSelection.
              let select =
                    (if truthy v then
                       (if truthy (getProp v ''select'') then getProp v ''select''
                        else if truthy (getProp v ''include'')
                          then deepExtend env defaultSelection (getProp v ''include'')
                        else if truthy (getProp v ''by'') \<and> isArray (getProp v ''by'') \<and>
                                otrNamespace ref = Some ''prisma'' \<and>
                                otrLocation ref = LOutputObjectTypes \<and>
                                (case outTypeName (otrType ref) of
                                   Some tn \<Rightarrow> isGroupByOutputName env tn
                                 | None \<Rightarrow> False)
                          then byToSelect env (arrayElems (getProp v ''by''))
                        else defaultSelection)
                     else defaultSelection)
              in rbind
                   (if select \<noteq> JBool False \<and> isRelation then
                      rbind
                        (selectionToFields_rec select fld
                           \<lparr>modelName =
                              (case otrType ref of
                                 OObject t \<Rightarrow>
                                   if otrNamespace ref = Some ''model'' \<and>
                                      otrLocation ref = LOutputObjectTypes
                                     then Some (otName t) else modelName ctx
                               | OEnum en vs \<Rightarrow>
                                   if otrNamespace ref = Some ''model'' \<and>
                                      otrLocation ref = LOutputObjectTypes
                                     then Some en else modelName ctx
                               | OScalar s \<Rightarrow> modelName ctx)\<rparr>)
                        (\<lambda>children. Ok (Some children))
                    else Ok None)
                   (\<lambda>children. Ok (acc @ [Field nm compiledArgs children None (Some fld)]))))"

text \<open>
  The checks of the descent keys (lines 969 to 1090) and what follows them. The branch
  for \<^verbatim>\<open>select\<close> together with \<^verbatim>\<open>include\<close> pushes its error field and does not
  return, so the tail runs on the extended list.
\<close>

definition selectionChecks ::
  "'n env \<Rightarrow> dmmfHelper \<Rightarrow> (jsval \<Rightarrow> schemaField \<Rightarrow> makeDocumentContext \<Rightarrow> field list res) \<Rightarrow>
   makeDocumentContext \<Rightarrow> field list \<Rightarrow> string \<Rightarrow> jsval \<Rightarrow> schemaField \<Rightarrow> args option \<Rightarrow>
   field list res" where
  "selectionChecks env dmmf selectionToFields_rec ctx acc nm v fld compiledArgs =
     (if truthy v \<and> truthy (getProp v ''select'') \<and> truthy (getProp v ''include'')
        then selectionTail env dmmf selectionToFields_rec ctx
               (acc @ [containerError nm ''include'' IncludeAndSelect])
               nm v fld compiledArgs
      else if truthy v \<and> truthy (getProp v ''include'') then
        (let keys = map fst (entries (getProp v ''include'')) in
         if length keys = 0
           then Ok (acc @ [containerError nm ''include'' EmptyInclude])
         else if otrLocation (sfOutputType fld) = LOutputObjectTypes then
           (case otrType (sfOutputType fld) of
              OObject fieldOutputType \<Rightarrow>
                (let allowedKeys =
                       map sfName
                         (filter (\<lambda>f. otrLocation (sfOutputType f) = LOutputObjectTypes)
                            (otFields fieldOutputType));
                     invalidKeys = filter (\<lambda>k. k \<notin> set allowedKeys) keys
                 in if length invalidKeys > 0 then
                      Ok (acc @
                          map (\<lambda>invalidKey.
                                 containerError invalidKey invalidKey
                                   (InvalidFieldName (otName fieldOutputType)
                                      invalidKey True
                                      (list_ex (\<lambda>f. sfName f = invalidKey)
                                         (otFields fieldOutputType))))
                            invalidKeys)
                    else selectionTail env dmmf selectionToFields_rec ctx acc
                           nm v fld compiledArgs)
            | _ \<Rightarrow> Throw TypeError)
         else selectionTail env dmmf selectionToFields_rec ctx acc
                nm v fld compiledArgs)
      else if truthy v \<and> truthy (getProp v ''select'') then
        (let vals = map snd (entries (getProp v ''select'')) in
         if length vals = 0
           then Ok (acc @ [containerError nm ''select'' EmptySelect])
         else if length (filter truthy vals) = 0
           then Ok (acc @ [containerError nm ''select'' NoTrueSelect])
         else selectionTail env dmmf selectionToFields_rec ctx acc
                nm v fld compiledArgs)
      else selectionTail env dmmf selectionToFields_rec ctx acc
             nm v fld compiledArgs)"

text \<open>
  The callback of the reduction in \<^verbatim>\<open>selectionToFields\<close>, for one key and value of
  the selection. The field is looked up by name in the field list of the output type.
\<close>

definition selectionStep ::
  "'n env \<Rightarrow> dmmfHelper \<Rightarrow> (jsval \<Rightarrow> schemaField \<Rightarrow> makeDocumentContext \<Rightarrow> field list res) \<Rightarrow>
   (jsval \<Rightarrow> argType \<Rightarrow> makeDocumentContext \<Rightarrow> args res) \<Rightarrow>
   outType \<Rightarrow> string list \<Rightarrow> makeDocumentContext \<Rightarrow> field list \<Rightarrow> string \<times> jsval \<Rightarrow>
   field list res" where
  "selectionStep env dmmf selectionToFields_rec objectToArgs_rec tp computedFields ctx acc kv =
     (case tp of
        OObject outputType \<Rightarrow>
          (let nm = fst kv; v = snd kv in
           case find (\<lambda>f. sfName f = nm) (otFields outputType) of
             None \<Rightarrow>
               if nm \<in> set computedFields then Ok acc
               else Ok (acc @ [Field nm None (Some [])
                                 (Some (InvalidFieldName (otName outputType) nm False False)) None])
           | Some fld \<Rightarrow>
               if otrLocation (sfOutputType fld) = LScalar \<and> length (sfArgs fld) = 0 \<and>
                  typeof v \<noteq> ''boolean''
                 then Ok (acc @ [Field nm None (Some [])
                                   (Some (InvalidFieldType (otName outputType) nm v)) None])
               else if v = JBool False then Ok acc
               else
                 rbind
                   (if typeof v = ''object'' \<and> truthy (omit env v [''include'', ''select''])
                      then rbind
                             (objectToArgs_rec (omit env v [''include'', ''select''])
                                (AInput (InputType (sfName fld)
                                           \<lparr>minNumFields = None, maxNumFields = None,
                                            atLeastFields = None\<rparr>
                                           (sfArgs fld) None))
                                ctx)
                             (\<lambda>a. Ok (Some a))
                    else Ok None)
                   (\<lambda>compiledArgs.
                      selectionChecks env dmmf selectionToFields_rec ctx acc nm v fld
                        compiledArgs))
      | _ \<Rightarrow> Throw TypeError)"

definition selectionToFields_body ::
  "'n env \<Rightarrow> dmmfHelper \<Rightarrow> (jsval \<Rightarrow> schemaField \<Rightarrow> makeDocumentContext \<Rightarrow> field list res) \<Rightarrow>
   (jsval \<Rightarrow> argType \<Rightarrow> makeDocumentContext \<Rightarrow> args res) \<Rightarrow>
   jsval \<Rightarrow> schemaField \<Rightarrow> makeDocumentContext \<Rightarrow> field list res" where
  "selectionToFields_body env dmmf selectionToFields_rec objectToArgs_rec selection fld ctx =
     (let computedFields =
            (if modelNameTruthy ctx then getAllComputedFields env (the (modelName ctx)) else [])
      in rbind (entriesOf (applyComputedFieldsToSelection env selection computedFields))
           (\<lambda>es. reduceFields
                    (selectionStep env dmmf selectionToFields_rec objectToArgs_rec
                       (otrType (sfOutputType fld)) computedFields ctx)
                    [] es))"

fun selectionToFields ::
  "nat \<Rightarrow> ('n::{plus,times,linorder}) env \<Rightarrow> dmmfHelper \<Rightarrow> jsval \<Rightarrow> schemaField \<Rightarrow>
   makeDocumentContext \<Rightarrow> field list res" where
  "selectionToFields 0 env dmmf selection fld ctx = OutOfFuel"
| "selectionToFields (Suc n) env dmmf selection fld ctx =
     selectionToFields_body env dmmf (\<lambda>s f c. selectionToFields n env dmmf s f c)
       (\<lambda>obj tp c. objectToArgs n env obj tp c) selection fld ctx"

definition rootTypeName :: "opKind \<Rightarrow> string" where
  "rootTypeName k = (case k of Query \<Rightarrow> ''query'' | Mutation \<Rightarrow> ''mutation'')"

definition makeDocument ::
  "nat \<Rightarrow> ('n::{plus,times,linorder}) env \<Rightarrow> dmmfHelper \<Rightarrow> opKind \<Rightarrow> string \<Rightarrow> jsval \<Rightarrow>
   string option \<Rightarrow> document res" where
  "makeDocument fuel env dmmf kind rootField select0 mName =
     (let select = (if \<not> truthy select0 then JObj [] else select0);
          rootType = (case kind of Query \<Rightarrow> queryType dmmf | Mutation \<Rightarrow> mutationType dmmf);
          fakeRootField =
            SchemaField (rootTypeName kind) []
              (OutputTypeRef False rootType LOutputObjectTypes None)
      in rbind
           (selectionToFields fuel env dmmf (JObj [(rootField, select)]) fakeRootField
              \<lparr>modelName = mName\<rparr>)
           (\<lambda>children. Ok \<lparr>docType = kind, docChildren = children\<rparr>))"


section \<open>The result scalar remapper\<close>

text \<open>
  \<^verbatim>\<open>mapScalars\<close> rewrites the payload in place; the model returns the rewritten
  payload. What the code leaves to the host is a parameter of the model.

  \<^item> \<^verbatim>\<open>deserialize\<close>: the five decoders of the table \<^verbatim>\<open>deserializers\<close> (lines 1749 to
    1757), which call \<^verbatim>\<open>new Date\<close>, \<^verbatim>\<open>JSON.parse\<close>, \<^verbatim>\<open>Buffer.from\<close>, \<^verbatim>\<open>new Decimal\<close>
    and \<^verbatim>\<open>BigInt\<close>. A decoder returns a value of the host, which the model stores as the
    value the parameter gives, or it throws.
  \<^item> \<^verbatim>\<open>tableInherits\<close>, \<^verbatim>\<open>inheritedDecoder\<close>: the table is an object literal, so the lookup
    \<^verbatim>\<open>deserializers[outputType]\<close> also finds what the table inherits from
    \<^verbatim>\<open>Object.prototype\<close>. \<^verbatim>\<open>tableInherits s\<close> says that the name \<^verbatim>\<open>s\<close>, not one of the
    five keys, is found there with a truthy value; \<^verbatim>\<open>inheritedDecoder\<close> is then the data
    after lines 1763 to 1788, or the error thrown.
  \<^item> \<^verbatim>\<open>builtinProp\<close>, \<^verbatim>\<open>decodeBuiltin\<close>, \<^verbatim>\<open>visitBuiltin\<close>: the read \<^verbatim>\<open>entry[child.name]\<close>
    finds, beyond the data properties that a payload value of the model carries, the
    built-in and inherited properties of the host: the length of an array or a string,
    the methods of the prototypes, the fields of a class instance. \<^verbatim>\<open>builtinProp v k\<close>
    says that \<^verbatim>\<open>k\<close>, not an own data property of \<^verbatim>\<open>v\<close>, is found in this way.
    \<^verbatim>\<open>decodeBuiltin\<close> is then the entry after lines 1767 to 1774 (or 1778 to 1785), and
    \<^verbatim>\<open>visitBuiltin\<close> the entry after the nested call of line 1794 (or 1797), or the
    error thrown.
\<close>

record hostObjects =
  deserialize :: "string \<Rightarrow> jsval \<Rightarrow> jsval res"
  tableInherits :: "string \<Rightarrow> bool"
  inheritedDecoder :: "string \<Rightarrow> field \<Rightarrow> jsval \<Rightarrow> jsval res"
  builtinProp :: "jsval \<Rightarrow> string \<Rightarrow> bool"
  decodeBuiltin :: "string \<Rightarrow> string \<Rightarrow> jsval \<Rightarrow> jsval res"
  visitBuiltin :: "field \<Rightarrow> jsval \<Rightarrow> jsval res"

text \<open>The own keys of the table \<^verbatim>\<open>deserializers\<close>.\<close>

definition wirePrimitive :: "string \<Rightarrow> bool" where
  "wirePrimitive s = (s \<in> set [''DateTime'', ''Json'', ''Bytes'', ''Decimal'', ''BigInt''])"

text \<open>
  The own data properties of a payload value: the keys of an object, the indices of an
  array, the indices of a string.
\<close>

fun hasOwn :: "jsval \<Rightarrow> string \<Rightarrow> bool" where
  "hasOwn (JObj kvs) k = (map_of kvs k \<noteq> None)"
| "hasOwn (JArr xs) k = (case parseIndex k of Some i \<Rightarrow> i < length xs | None \<Rightarrow> False)"
| "hasOwn (JStr s) k = (case parseIndex k of Some i \<Rightarrow> i < length s | None \<Rightarrow> False)"
| "hasOwn _ k = False"

text \<open>\<^verbatim>\<open>entry[k] = v\<close> on an own data property, in strict mode.\<close>

fun assignProp :: "jsval \<Rightarrow> string \<Rightarrow> jsval \<Rightarrow> jsval res" where
  "assignProp (JObj kvs) k v = Ok (JObj (setEntry kvs k v))"
| "assignProp (JArr xs) k v =
     (case parseIndex k of
        Some i \<Rightarrow>
          if i < length xs then Ok (JArr (xs[i := v]))
          else Ok (JArr (xs @ replicate (i - length xs) JUndefined @ [v]))
      | None \<Rightarrow> Ok (JArr xs))"
| "assignProp (JStr s) k v = Throw TypeError"
| "assignProp x k v = Ok x"

text \<open>Lines 1767 to 1774 and 1778 to 1785: one leaf of one entry.\<close>

definition deserializeProp :: "hostObjects \<Rightarrow> string \<Rightarrow> string \<Rightarrow> jsval \<Rightarrow> jsval res" where
  "deserializeProp host kind nm entry =
     (if nullish entry then Throw TypeError
      else if hasOwn entry nm then
        (let cur = getProp entry nm in
         if typeof cur \<noteq> ''undefined'' \<and> cur \<noteq> JNull then
           (if isArray cur
              then rbind (rsequence (map (deserialize host kind) (arrayElems cur)))
                     (\<lambda>xs. assignProp entry nm (JArr xs))
            else rbind (deserialize host kind cur) (\<lambda>x. assignProp entry nm x))
         else Ok entry)
      else if builtinProp host entry nm then decodeBuiltin host kind nm entry
      else Ok entry)"

text \<open>
  The nested call \<^verbatim>\<open>mapScalars({ field: child, data: entry[child.name] })\<close>: the
  nested object is rewritten where it stands.
\<close>

fun storeNested :: "jsval \<Rightarrow> string \<Rightarrow> jsval \<Rightarrow> jsval" where
  "storeNested (JObj kvs) k r = (if map_of kvs k = None then JObj kvs else JObj (setEntry kvs k r))"
| "storeNested (JArr xs) k r =
     (case parseIndex k of
        Some i \<Rightarrow> if i < length xs then JArr (xs[i := r]) else JArr xs
      | None \<Rightarrow> JArr xs)"
| "storeNested x k r = x"

definition nestedProp ::
  "hostObjects \<Rightarrow> (jsval \<Rightarrow> jsval res) \<Rightarrow> field \<Rightarrow> jsval \<Rightarrow> jsval res" where
  "nestedProp host mapScalars_rec child entry =
     (if nullish entry then Throw TypeError
      else if \<not> hasOwn entry (fieldName child) \<and> builtinProp host entry (fieldName child)
        then visitBuiltin host child entry
      else rbind (mapScalars_rec (getProp entry (fieldName child)))
             (\<lambda>r. Ok (storeNested entry (fieldName child) r)))"

text \<open>
  \<^verbatim>\<open>if (Array.isArray(data)) { for (const entry of data) ... } else ...\<close>: the same
  statement on every entry of an array, or on the data itself.
\<close>

definition overEntries :: "(jsval \<Rightarrow> jsval res) \<Rightarrow> jsval \<Rightarrow> jsval res" where
  "overEntries f d =
     (if isArray d then rbind (rsequence (map f (arrayElems d))) (\<lambda>xs. Ok (JArr xs))
      else f d)"

text \<open>
  \<^verbatim>\<open>outputType && typeof outputType === 'string'\<close> (line 1761), and the test of
  line 1791.
\<close>

definition childKind :: "field \<Rightarrow> string option" where
  "childKind child =
     (case fieldSchema child of
        Some sf \<Rightarrow>
          (case otrType (sfOutputType sf) of
             OScalar s \<Rightarrow> if s \<noteq> [] then Some s else None
           | _ \<Rightarrow> None)
      | None \<Rightarrow> None)"

definition isRelationChild :: "field \<Rightarrow> bool" where
  "isRelationChild child =
     (case fieldSchema child of
        Some sf \<Rightarrow> otrLocation (sfOutputType sf) = LOutputObjectTypes
      | None \<Rightarrow> False)"

text \<open>The body of the loop over \<^verbatim>\<open>field.children\<close>, for one child.\<close>

definition mapChild ::
  "hostObjects \<Rightarrow> field \<Rightarrow> (jsval \<Rightarrow> jsval res) \<Rightarrow> jsval \<Rightarrow> jsval res" where
  "mapChild host child mapScalars_rec d =
     rbind
       (case childKind child of
          Some s \<Rightarrow>
            if wirePrimitive s
              then overEntries (deserializeProp host s (fieldName child)) d
            else if tableInherits host s then inheritedDecoder host s child d
            else Ok d
        | None \<Rightarrow> Ok d)
       (\<lambda>d1.
          if isRelationChild child
            then overEntries (nestedProp host mapScalars_rec child) d1
          else Ok d1)"

fun mapScalars :: "hostObjects \<Rightarrow> field \<Rightarrow> jsval \<Rightarrow> jsval res"
  and mapScalarsChildren :: "hostObjects \<Rightarrow> field list \<Rightarrow> jsval \<Rightarrow> jsval res" where
  "mapScalars host (Field n a cs e sf) d =
     (case cs of
        None \<Rightarrow> Ok d
      | Some children \<Rightarrow>
          if \<not> truthy d \<or> typeof d \<noteq> ''object'' \<or> sf = None then Ok d
          else mapScalarsChildren host children d)"
| "mapScalarsChildren host [] d = Ok d"
| "mapScalarsChildren host (child # rest) d =
     rbind (mapChild host child (\<lambda>x. mapScalars host child x) d)
       (\<lambda>d1. mapScalarsChildren host rest d1)"


section \<open>A reference instance of the collaborators\<close>

text \<open>
  To run the model on concrete inputs the collaborators are instantiated: objects are
  filtered, omitted from and merged key by key, the inferred kind of a value is read off
  its shape, the decoders return their argument, no computed field is declared, and the
  scores are real numbers.
\<close>

definition refFilterObject :: "jsval \<Rightarrow> (string \<Rightarrow> jsval \<Rightarrow> bool) \<Rightarrow> jsval" where
  "refFilterObject obj cb =
     (case obj of JObj kvs \<Rightarrow> JObj (filter (\<lambda>kv. cb (fst kv) (snd kv)) kvs) | _ \<Rightarrow> obj)"

definition refOmit :: "jsval \<Rightarrow> string list \<Rightarrow> jsval" where
  "refOmit obj ks = JObj (filter (\<lambda>kv. fst kv \<notin> set ks) (entries obj))"

definition refUnionBy ::
  "(string \<times> jsval) list \<Rightarrow> (string \<times> jsval) list \<Rightarrow> (string \<times> jsval) list" where
  "refUnionBy xs ys = xs @ filter (\<lambda>kv. fst kv \<notin> set (map fst xs)) ys"

definition refIsObject :: "jsval \<Rightarrow> bool" where
  "refIsObject v = (case v of JObj kvs \<Rightarrow> True | _ \<Rightarrow> False)"

definition refDeepExtend :: "jsval \<Rightarrow> jsval \<Rightarrow> jsval" where
  "refDeepExtend a b =
     (case a of
        JObj x \<Rightarrow>
          (case b of
             JObj y \<Rightarrow> JObj (foldl (\<lambda>acc kv. setEntry acc (fst kv) (snd kv)) x y)
           | _ \<Rightarrow> a)
      | _ \<Rightarrow> a)"

fun joinWith :: "string \<Rightarrow> string list \<Rightarrow> string" where
  "joinWith sep [] = []"
| "joinWith sep [x] = x"
| "joinWith sep (x # xs) = x @ sep @ joinWith sep xs"

fun refGraphQLType :: "jsval \<Rightarrow> argInputType \<Rightarrow> string" where
  "refGraphQLType JUndefined it = ''undefined''"
| "refGraphQLType JNull it = ''null''"
| "refGraphQLType (JBool b) it = ''Boolean''"
| "refGraphQLType (JNum n) it = ''Int''"
| "refGraphQLType (JStr s) it = ''String''"
| "refGraphQLType (JArr xs) it =
     ''List<'' @ joinWith '' | '' (remdups (map (\<lambda>x. refGraphQLType x it) xs)) @ ''>''"
| "refGraphQLType (JObj kvs) it = ''Json''"
| "refGraphQLType (JDate b) it = ''DateTime''"
| "refGraphQLType JSymbol it = ''Symbol''"
| "refGraphQLType (JObjectEnum n) it = n"
| "refGraphQLType (JFieldRef n) it = n"

definition refStringifyType :: "argType \<Rightarrow> string" where
  "refStringifyType tp = (case tp of AScalar s \<Rightarrow> s | AEnum n vs \<Rightarrow> n | AInput t \<Rightarrow> itName t)"

definition refWrapWithList :: "string \<Rightarrow> bool \<Rightarrow> string" where
  "refWrapWithList s isList = (if isList then ''List<'' @ s @ ''>'' else s)"

definition refEnv :: "real env" where
  "refEnv =
     \<lparr>filterObject = refFilterObject,
      omit = refOmit,
      unionBy = refUnionBy,
      isObject = refIsObject,
      deepExtend = refDeepExtend,
      getGraphQLType = refGraphQLType,
      stringifyGraphQLType = refStringifyType,
      wrapWithList = refWrapWithList,
      isGroupByOutputName = (\<lambda>nm. startsWith (rev nm) (rev ''GroupByOutputType'')),
      isDate = (\<lambda>v. case v of JDate b \<Rightarrow> True | _ \<Rightarrow> False),
      isValidDate = (\<lambda>v. case v of JDate b \<Rightarrow> b | _ \<Rightarrow> False),
      getAllComputedFields = (\<lambda>m. []),
      applyComputedFieldsToSelection = (\<lambda>sel cf. sel),
      toPropertyKey = (\<lambda>v. case v of JStr s \<Rightarrow> s | _ \<Rightarrow> []),
      mathExp = (\<lambda>n. exp (real n)),
      mathLog = (\<lambda>n. ln (real n)),
      ofNat = real\<rparr>"


section \<open>A small schema\<close>

text \<open>
  A schema with a model \<^verbatim>\<open>User\<close> (scalar fields \<^verbatim>\<open>id\<close> and \<^verbatim>\<open>age\<close>, relation
  \<^verbatim>\<open>posts\<close>), a query \<^verbatim>\<open>findManyUser\<close> with a \<^verbatim>\<open>where\<close> argument, and a mutation
  \<^verbatim>\<open>createManyUser\<close> whose \<^verbatim>\<open>data\<close> argument is declared as a list of input objects.
\<close>

definition noConstraints :: constraints where
  "noConstraints = \<lparr>minNumFields = None, maxNumFields = None, atLeastFields = None\<rparr>"

definition exInt :: argInputType where
  "exInt = ArgInputType False (AScalar ''Int'') LScalar"

definition exString :: argInputType where
  "exString = ArgInputType False (AScalar ''String'') LScalar"

definition exJson :: argInputType where
  "exJson = ArgInputType False (AScalar ''Json'') LScalar"

definition exIntList :: argInputType where
  "exIntList = ArgInputType True (AScalar ''Int'') LScalar"

definition exWhereInput :: inputType where
  "exWhereInput =
     InputType ''UserWhereInput'' noConstraints
       [SchemaArg ''id'' [exIntList] False False, SchemaArg ''age'' [exInt] False False] None"

definition exCreateInput :: inputType where
  "exCreateInput =
     InputType ''UserCreateManyInput'' noConstraints
       [SchemaArg ''email'' [exString] False False, SchemaArg ''name'' [exString] True False] None"

definition exUncheckedInput :: inputType where
  "exUncheckedInput =
     InputType ''UserUncheckedCreateInput'' noConstraints
       [SchemaArg ''name'' [exString] True False] None"

definition exCheckedInput :: inputType where
  "exCheckedInput =
     InputType ''UserCreateInput'' noConstraints
       [SchemaArg ''name'' [exString] True False] None"

definition exPostType :: outputType where
  "exPostType =
     OutputType ''Post''
       [SchemaField ''id'' [] (OutputTypeRef False (OScalar ''Int'') LScalar None),
        SchemaField ''createdAt'' [] (OutputTypeRef False (OScalar ''DateTime'') LScalar None)]"

definition exUserType :: outputType where
  "exUserType =
     OutputType ''User''
       [SchemaField ''id'' [] (OutputTypeRef False (OScalar ''Int'') LScalar None),
        SchemaField ''age'' [] (OutputTypeRef False (OScalar ''Int'') LScalar None),
        SchemaField ''posts'' []
          (OutputTypeRef True (OObject exPostType) LOutputObjectTypes (Some ''model''))]"

definition exFindManyUser :: schemaField where
  "exFindManyUser =
     SchemaField ''findManyUser''
       [SchemaArg ''where'' [ArgInputType False (AInput exWhereInput) LInputObjectTypes]
          False False]
       (OutputTypeRef True (OObject exUserType) LOutputObjectTypes (Some ''model''))"

definition exCreateManyUser :: schemaField where
  "exCreateManyUser =
     SchemaField ''createManyUser''
       [SchemaArg ''data'' [ArgInputType True (AInput exCreateInput) LInputObjectTypes]
          True False]
       (OutputTypeRef False (OObject exUserType) LOutputObjectTypes (Some ''model''))"

text \<open>
  An argument named \<^verbatim>\<open>updateMany\<close> that accepts one input object or a list of them.
\<close>

definition exUpdateManyArg :: schemaArg where
  "exUpdateManyArg =
     SchemaArg ''updateMany''
       [ArgInputType False (AInput exCheckedInput) LInputObjectTypes,
        ArgInputType True (AInput exCheckedInput) LInputObjectTypes]
       False False"

definition exUpdateUser :: schemaField where
  "exUpdateUser =
     SchemaField ''updateUser'' [exUpdateManyArg]
       (OutputTypeRef False (OObject exUserType) LOutputObjectTypes (Some ''model''))"

definition exDmmf :: dmmfHelper where
  "exDmmf =
     \<lparr>queryType = OObject (OutputType ''Query'' [exFindManyUser]),
      mutationType = OObject (OutputType ''Mutation'' [exCreateManyUser, exUpdateUser]),
      typeMap = []\<rparr>"

definition noContext :: makeDocumentContext where
  "noContext = \<lparr>modelName = None\<rparr>"


definition exRequiredAge :: schemaArg where
  "exRequiredAge = SchemaArg ''age'' [exInt] True False"

definition exOptionalAge :: schemaArg where
  "exOptionalAge = SchemaArg ''age'' [exInt] False False"

definition exIdArg :: schemaArg where
  "exIdArg = SchemaArg ''id'' [exIntList] False False"

definition exScalarUnion :: schemaArg where
  "exScalarUnion = SchemaArg ''x'' [exString, exInt] False False"

definition exUnchecked :: argInputType where
  "exUnchecked = ArgInputType False (AInput exUncheckedInput) LInputObjectTypes"

definition exChecked :: argInputType where
  "exChecked = ArgInputType False (AInput exCheckedInput) LInputObjectTypes"

definition exUnionArg :: schemaArg where
  "exUnionArg = SchemaArg ''data'' [exUnchecked, exChecked] False False"

text \<open>What each candidate of \<^verbatim>\<open>exUnionArg\<close> compiles the empty object to.\<close>

definition exMissingName :: "argInputType \<Rightarrow> arg" where
  "exMissingName it =
     Arg ''data''
       (VArgs (Args [Arg ''name'' (VRaw JUndefined) (Some (MissingArg ''name'' True False False))
                       (Some exString)]))
       None (Some it)"

definition exFloat :: argInputType where
  "exFloat = ArgInputType False (AScalar ''Float'') LScalar"

section \<open>The claimed acceptance rule\<close>

text \<open>
  The one-directional subtype rules between an inferred kind and a declared kind, as the
  specification lists them.
\<close>

definition subtypeRule :: "string \<Rightarrow> string \<Rightarrow> jsval \<Rightarrow> bool" where
  "subtypeRule inferred declared v =
     ((inferred = ''Int'' \<and> declared = ''BigInt'') \<or>
      (inferred = ''Int'' \<and> declared = ''Float'') \<or>
      (inferred = ''Int'' \<and> declared = ''Decimal'') \<or>
      (inferred = ''Float'' \<and> declared = ''Decimal'') \<or>
      (inferred = ''String'' \<and> declared = ''Decimal'' \<and> isDecimalString v) \<or>
      (inferred = ''DateTime'' \<and> declared = ''String'') \<or>
      (inferred = ''UUID'' \<and> declared = ''String'') \<or>
      (inferred = ''String'' \<and> declared = ''ID'') \<or>
      (inferred = ''Int'' \<and> declared = ''Long''))"

text \<open>
  The acceptance rule in the words of the specification: equal kinds, a subtype rule, an
  empty list into a list kind, the open kind \<^verbatim>\<open>Json\<close> for any value that is not a
  tagged enum value or a field-ref marker, and \<^verbatim>\<open>null\<close>; a list against a list kind
  is accepted exactly when every element is accepted against the element kind.
\<close>

definition specAcceptsScalar :: "'n env \<Rightarrow> jsval \<Rightarrow> argInputType \<Rightarrow> makeDocumentContext \<Rightarrow> bool" where
  "specAcceptsScalar env v it ctx =
     (let declared = getExpectedType env it ctx;
          inferred = getGraphQLType env v it
      in inferred = declared \<or> subtypeRule inferred declared v \<or>
         (aitIsList it \<and> inferred = ''List<>'') \<or>
         (declared = ''Json'' \<and> \<not> isObjectEnumValue v \<and> \<not> isFieldRefImpl v) \<or>
         v = JNull)"

definition specAccepts :: "'n env \<Rightarrow> jsval \<Rightarrow> argInputType \<Rightarrow> makeDocumentContext \<Rightarrow> bool" where
  "specAccepts env v it ctx =
     (if aitIsList it \<and> isArray v
        then list_all (\<lambda>x. specAcceptsScalar env x (scalarType it) ctx) (arrayElems v)
      else specAcceptsScalar env v it ctx)"

text \<open>The document \<^verbatim>\<open>findManyUser\<close> compiles to with no selection given.\<close>

definition exScalarChild :: "string \<Rightarrow> field" where
  "exScalarChild nm =
     Field nm None None None
       (Some (SchemaField nm [] (OutputTypeRef False (OScalar ''Int'') LScalar None)))"

definition exRootDoc :: document where
  "exRootDoc =
     \<lparr>docType = Query,
      docChildren =
        [Field ''findManyUser'' (Some (Args []))
           (Some [exScalarChild ''id'', exScalarChild ''age'']) None (Some exFindManyUser)]\<rparr>"

text \<open>The document an unknown root field name compiles to.\<close>

definition exUnknownRootDoc :: document where
  "exUnknownRootDoc =
     \<lparr>docType = Query,
      docChildren =
        [Field ''findManyUsr'' None (Some [])
           (Some (InvalidFieldName ''Query'' ''findManyUsr'' False False)) None]\<rparr>"

section \<open>Errors anywhere in a field tree\<close>

text \<open>
  A field tree contains an error when the field carries one, or its compiled arguments
  do, or a field below it does.
\<close>

fun errorAnywhere :: "field \<Rightarrow> bool" where
  "errorAnywhere (Field n a cs e sf) =
     (e \<noteq> None \<or>
      (case a of Some xs \<Rightarrow> hasInvalidArg xs | None \<Rightarrow> False) \<or>
      (case cs of Some xs \<Rightarrow> list_ex errorAnywhere xs | None \<Rightarrow> False))"

section \<open>Payloads and leaves of the remapper\<close>








text \<open>
  The call fails as a decoder failed: some decoder of the table, on some value, threw
  the same error (or did not return).
\<close>

fun failureOf :: "'a res \<Rightarrow> 'b res option" where
  "failureOf (Ok x) = None"
| "failureOf (Throw e) = Some (Throw e)"
| "failureOf OutOfFuel = Some OutOfFuel"

definition decoderFailure :: "hostObjects \<Rightarrow> jsval res \<Rightarrow> bool" where
  "decoderFailure host m =
     (\<exists>kind v. wirePrimitive kind \<and> failureOf (deserialize host kind v) = Some m)"





definition endsWell :: "hostObjects \<Rightarrow> (jsval \<Rightarrow> bool) \<Rightarrow> jsval res \<Rightarrow> bool" where
  "endsWell host P m = ((\<exists>r. m = Ok r \<and> P r) \<or> decoderFailure host m)"

text \<open>
  The field tree of \<^verbatim>\<open>findManyUser\<close> with the selection
  \<^verbatim>\<open>{ id: true, posts: { select: { createdAt: true, id: true } } }\<close>, a payload for it
  and for its \<^verbatim>\<open>posts\<close>, the same payloads with a value in the place of the date, and
  posts without a date.
\<close>

definition exCreatedAt :: field where
  "exCreatedAt =
     Field ''createdAt'' None None None
       (Some (SchemaField ''createdAt'' []
                (OutputTypeRef False (OScalar ''DateTime'') LScalar None)))"

definition exPostsTree :: field where
  "exPostsTree =
     Field ''posts'' (Some (Args [])) (Some [exCreatedAt, exScalarChild ''id'']) None
       (Some (SchemaField ''posts'' []
                (OutputTypeRef True (OObject exPostType) LOutputObjectTypes (Some ''model''))))"

definition exUsersTree :: field where
  "exUsersTree =
     Field ''findManyUser'' (Some (Args [])) (Some [exScalarChild ''id'', exPostsTree]) None
       (Some exFindManyUser)"

definition exPostsDecoded :: "jsval \<Rightarrow> jsval" where
  "exPostsDecoded x =
     JArr [JObj [(''id'', JNum 10), (''createdAt'', x)],
           JObj [(''id'', JNum 11), (''createdAt'', JNull)]]"

definition exPosts :: jsval where
  "exPosts = exPostsDecoded (JStr ''2020-01-01T00:00:00.000Z'')"

definition exUsersDecoded :: "jsval \<Rightarrow> jsval" where
  "exUsersDecoded x = JArr [JObj [(''id'', JNum 1), (''posts'', exPostsDecoded x)]]"

definition exUsers :: jsval where
  "exUsers = exUsersDecoded (JStr ''2020-01-01T00:00:00.000Z'')"

definition exUndated :: jsval where
  "exUndated = JArr [JObj [(''id'', JNum 10), (''createdAt'', JNull)], JObj [(''id'', JNum 11)]]"

text \<open>
  Any host, with the given names taken out of its built-in and inherited property
  names.
\<close>

definition hostWithout :: "string list \<Rightarrow> hostObjects \<Rightarrow> hostObjects" where
  "hostWithout names h =
     h\<lparr>tableInherits := (\<lambda>s. tableInherits h s \<and> s \<notin> set names),
       builtinProp := (\<lambda>v k. builtinProp h v k \<and> k \<notin> set names)\<rparr>"

definition exNames :: "string list" where
  "exNames = [''id'', ''createdAt'', ''posts'', ''Int'']"

text \<open>
  Three field trees outside these conditions: a DateTime child named \<^verbatim>\<open>0\<close>; a child
  \<^verbatim>\<open>meta\<close> with the kind Json and the nested-object location; two siblings named
  \<^verbatim>\<open>meta\<close>, the first of kind Json, the second a nested-object field.
\<close>

definition exIndexTree :: field where
  "exIndexTree =
     Field ''posts'' (Some (Args []))
       (Some [Field ''0'' None None None
                (Some (SchemaField ''0'' []
                         (OutputTypeRef False (OScalar ''DateTime'') LScalar None)))])
       None
       (Some (SchemaField ''posts'' []
                (OutputTypeRef True (OObject exPostType) LOutputObjectTypes (Some ''model''))))"

definition exMixedTree :: field where
  "exMixedTree =
     Field ''findManyUser'' (Some (Args []))
       (Some [Field ''meta'' None (Some [exCreatedAt]) None
                (Some (SchemaField ''meta'' []
                         (OutputTypeRef False (OScalar ''Json'') LOutputObjectTypes None)))])
       None (Some exFindManyUser)"

definition exRepeatedTree :: field where
  "exRepeatedTree =
     Field ''findManyUser'' (Some (Args []))
       (Some [Field ''meta'' None None None
                (Some (SchemaField ''meta'' []
                         (OutputTypeRef False (OScalar ''Json'') LScalar None))),
              Field ''meta'' None (Some [exCreatedAt]) None
                (Some (SchemaField ''meta'' []
                         (OutputTypeRef False (OObject exPostType) LOutputObjectTypes
                            (Some ''model''))))])
       None (Some exFindManyUser)"

section \<open>The number of root fields\<close>

text \<open>
  The include keys that \<^verbatim>\<open>selectionToFields\<close> rejects for a relation field (lines
  1015 to 1018), and the number of fields the compiler produces for the root key when
  the root selection does not carry \<^verbatim>\<open>select\<close> and \<^verbatim>\<open>include\<close> together.
\<close>

fun outTypeFields :: "outType \<Rightarrow> schemaField list" where
  "outTypeFields (OObject t) = otFields t"
| "outTypeFields _ = []"

definition invalidIncludeKeys :: "schemaField \<Rightarrow> jsval \<Rightarrow> string list" where
  "invalidIncludeKeys fld inc =
     filter
       (\<lambda>k. k \<notin> set (map sfName
                        (filter (\<lambda>f. otrLocation (sfOutputType f) = LOutputObjectTypes)
                           (outTypeFields (otrType (sfOutputType fld))))))
       (map fst (entries inc))"

definition rootFieldCount :: "string list \<Rightarrow> outType \<Rightarrow> string \<Rightarrow> jsval \<Rightarrow> nat" where
  "rootFieldCount computedFields rootType rootField select =
     (case find (\<lambda>f. sfName f = rootField) (outTypeFields rootType) of
        None \<Rightarrow> if rootField \<in> set computedFields then 0 else 1
      | Some fld \<Rightarrow>
          if truthy (getProp select ''include'') \<and>
             otrLocation (sfOutputType fld) = LOutputObjectTypes \<and>
             invalidIncludeKeys fld (getProp select ''include'') \<noteq> []
            then length (invalidIncludeKeys fld (getProp select ''include''))
          else 1)"

section \<open>Basic facts about the model\<close>

lemma refEnv_simps [simp]:
  "filterObject refEnv = refFilterObject"
  "omit refEnv = refOmit"
  "unionBy refEnv = refUnionBy"
  "isObject refEnv = refIsObject"
  "deepExtend refEnv = refDeepExtend"
  "getGraphQLType refEnv = refGraphQLType"
  "stringifyGraphQLType refEnv = refStringifyType"
  "wrapWithList refEnv = refWrapWithList"
  "isGroupByOutputName refEnv = (\<lambda>nm. startsWith (rev nm) (rev ''GroupByOutputType''))"
  "isDate refEnv = (\<lambda>v. case v of JDate b \<Rightarrow> True | _ \<Rightarrow> False)"
  "isValidDate refEnv = (\<lambda>v. case v of JDate b \<Rightarrow> b | _ \<Rightarrow> False)"
  "getAllComputedFields refEnv = (\<lambda>m. [])"
  "applyComputedFieldsToSelection refEnv = (\<lambda>sel cf. sel)"
  "toPropertyKey refEnv = (\<lambda>v. case v of JStr s \<Rightarrow> s | _ \<Rightarrow> [])"
  "ofNat refEnv = real"
  "mathLog refEnv = (\<lambda>n. ln (real n))"
  "mathExp refEnv = (\<lambda>n. exp (real n))"
  by (simp_all add: refEnv_def)

lemmas collaborator_defs =
  refFilterObject_def refOmit_def refUnionBy_def refIsObject_def refDeepExtend_def
  refStringifyType_def refWrapWithList_def

lemmas schema_defs =
  exDmmf_def exFindManyUser_def exCreateManyUser_def exUserType_def exPostType_def
  exWhereInput_def exCreateInput_def exUncheckedInput_def exCheckedInput_def
  exInt_def exString_def exIntList_def exJson_def noConstraints_def noContext_def
  exRequiredAge_def exOptionalAge_def exIdArg_def exScalarUnion_def exUnchecked_def
  exChecked_def exUnionArg_def exFloat_def exUpdateManyArg_def exUpdateUser_def

lemmas inference_defs =
  objectToArgs_body_def objectToArgs_entry_def valueToArg_body_def tryInferArgs_body_def
  tryInferArgs_object_def tryInferArgs_list_def tryInferArgs_item_def
  pickCandidate_def cleanObject_def keysOrEmpty_def modelNameTruthy_def
  wrapForList_def minPositive_def maxBelowTwo_def scalarToArg_def getInvalidTypeArg_def
  newArg_def optionalMissingArg_def isMissingOrAtLeastOne_def scalarOnlyArg_def scalarType_def
  getExpectedType_def sortByScore_def

lemma argErr_newArg [simp]: "argErr (newArg k v e it) = e"
  by (simp add: newArg_def)

lemma argIT_newArg [simp]: "argIT (newArg k v e it) = it"
  by (simp add: newArg_def)

lemma hasError_newArg_Some [simp]: "hasError (newArg k v (Some e) it)"
  by (simp add: newArg_def)

lemma typeof_undefined_iff: "typeof v = ''undefined'' \<longleftrightarrow> v = JUndefined"
  by (cases v) auto

lemma hasCorrectScalarType_null: "hasCorrectScalarType env JNull it ctx"
  by (subst hasCorrectScalarType.simps) (simp add: Let_def)

lemma scalarToArg_not_null_error:
  "argErr (scalarToArg env k v sa it ctx) \<noteq> Some (InvalidNullArg k')"
  by (simp add: scalarToArg_def getInvalidTypeArg_def)

lemma tryInferArgs_undefined:
  "tryInferArgs (Suc n) env k JUndefined sa it ctx =
     (if saIsRequired sa
      then Ok (Some (newArg k (VRaw JUndefined) (Some (MissingArg k True False False)) (Some it)))
      else Ok None)"
  by (simp add: tryInferArgs_body_def)

lemma insertByScore_set: "set (insertByScore sc x ys) = insert x (set ys)"
  by (induction ys) auto

lemma insertByScore_sorted:
  "sorted (map sc ys) \<Longrightarrow> sorted (map sc (insertByScore sc x ys))"
  by (induction ys) (auto simp: insertByScore_set)

lemma foldl_insertByScore:
  "sorted (map sc acc) \<Longrightarrow>
   sorted (map sc (foldl (\<lambda>acc x. insertByScore sc x acc) acc xs)) \<and>
   set (foldl (\<lambda>acc x. insertByScore sc x acc) acc xs) = set acc \<union> set xs"
  by (induction xs arbitrary: acc) (auto simp: insertByScore_set insertByScore_sorted)

lemma sortByScore_hd:
  assumes "xs \<noteq> []"
  shows "hd (sortByScore sc xs) \<in> set xs \<and> (\<forall>y\<in>set xs. sc (hd (sortByScore sc xs)) \<le> sc y)"
proof -
  let ?s = "sortByScore sc xs"
  have s: "sorted (map sc ?s)" and m: "set ?s = set xs"
    using foldl_insertByScore [of sc "[]" xs] by (simp_all add: sortByScore_def)
  from m assms have ne: "?s \<noteq> []" by auto
  then obtain z zs where z: "?s = z # zs" by (cases ?s) auto
  with s m show ?thesis by auto
qed


lemma candidateLoop_all_fail:
  assumes "\<And>a. a \<in> set as \<Longrightarrow> arg_collectErrors a \<noteq> []"
  shows "candidateLoop (map (\<lambda>a. Ok (Some a)) as) m acc =
     Ok (False, (if as = [] then m else Some (last as)),
         acc @ map (\<lambda>a. (a, arg_collectErrors a)) as)"
  using assms by (induction as arbitrary: m acc) auto

lemma collectErrors_nonempty_hasError: "arg_collectErrors a \<noteq> [] \<Longrightarrow> hasError a"
  by (cases a) (auto split: if_splits)



lemma valueToArg_all_fail:
  fixes env :: "('n::{plus,times,linorder}) env"
  assumes ne: "saInputTypes sa \<noteq> []"
    and fail: "\<forall>it\<in>set (saInputTypes sa). \<exists>a. tryInferArgs n env k v sa it ctx = Ok (Some a) \<and>
        arg_collectErrors a \<noteq> []"
  shows "\<exists>it\<in>set (saInputTypes sa). \<exists>a.
          tryInferArgs n env k v sa it ctx = Ok (Some a) \<and>
          valueToArg (Suc n) env k v sa ctx = Ok (Some a) \<and>
          (\<forall>it'\<in>set (saInputTypes sa). \<forall>b. tryInferArgs n env k v sa it' ctx = Ok (Some b) \<longrightarrow>
              candidateScore env (a, arg_collectErrors a) \<le>
              candidateScore env (b, arg_collectErrors b))"
proof -
  define pick where "pick = (\<lambda>it. case tryInferArgs n env k v sa it ctx of Ok (Some a) \<Rightarrow> a)"
  define as where "as = map pick (saInputTypes sa)"
  define cs where "cs = map (\<lambda>a. (a, arg_collectErrors a)) as"
  have pick: "\<And>it. it \<in> set (saInputTypes sa) \<Longrightarrow>
      tryInferArgs n env k v sa it ctx = Ok (Some (pick it)) \<and> arg_collectErrors (pick it) \<noteq> []"
    using fail by (fastforce simp: pick_def)
  have rs: "map (\<lambda>it. tryInferArgs n env k v sa it ctx) (saInputTypes sa) =
      map (\<lambda>a. Ok (Some a)) as"
    using pick by (simp add: as_def)
  have errs: "\<And>a. a \<in> set as \<Longrightarrow> arg_collectErrors a \<noteq> []"
    using pick by (auto simp: as_def)
  have as_ne: "as \<noteq> []" using ne by (simp add: as_def)
  then have cs_ne: "cs \<noteq> []" by (simp add: cs_def)
  have last_err: "hasError (last as)"
    using errs [of "last as"] as_ne by (simp add: collectErrors_nonempty_hasError)
  have loop: "candidateLoop (map (\<lambda>it. tryInferArgs n env k v sa it ctx) (saInputTypes sa)) None [] =
      Ok (False, Some (last as), cs)"
    using candidateLoop_all_fail [of as None "[]"] errs as_ne by (simp add: rs cs_def)
  define w where "w = hd (sortByScore (candidateScore env) cs)"
  have w: "w \<in> set cs" "\<forall>y\<in>set cs. candidateScore env w \<le> candidateScore env y"
    using sortByScore_hd [OF cs_ne, of "candidateScore env"] by (simp_all add: w_def)
  have res: "valueToArg (Suc n) env k v sa ctx = Ok (Some (fst w))"
    using loop last_err cs_ne by (simp add: valueToArg_body_def pickCandidate_def w_def)
  from w(1) obtain it where it: "it \<in> set (saInputTypes sa)" "w = (pick it, arg_collectErrors (pick it))"
    by (auto simp: cs_def as_def)
  have min: "\<forall>it'\<in>set (saInputTypes sa). \<forall>b. tryInferArgs n env k v sa it' ctx = Ok (Some b) \<longrightarrow>
      candidateScore env (pick it, arg_collectErrors (pick it)) \<le>
      candidateScore env (b, arg_collectErrors b)"
  proof (intro ballI allI impI)
    fix it' b
    assume i': "it' \<in> set (saInputTypes sa)" and b: "tryInferArgs n env k v sa it' ctx = Ok (Some b)"
    then have "b = pick it'" using pick [OF i'] by simp
    then have "(b, arg_collectErrors b) \<in> set cs" using i' by (auto simp: cs_def as_def)
    with w(2) it(2) show "candidateScore env (pick it, arg_collectErrors (pick it)) \<le>
      candidateScore env (b, arg_collectErrors b)" by auto
  qed
  from it pick [OF it(1)] res min show ?thesis
    by (intro bexI [of _ it] exI [of _ "pick it"]) auto
qed








lemma ex_unchecked [simp]:
  "uncheckedCandidate (exMissingName exUnchecked)" "\<not> uncheckedCandidate (exMissingName exChecked)"
  by (simp_all add: uncheckedCandidate_def exMissingName_def schema_defs)


lemma candidateLoop_all_none:
  "candidateLoop (map (\<lambda>it. Ok None) its) m acc =
     Ok (False, (if its = [] then m else None), acc)"
  by (induction its arbitrary: m acc) auto

lemma collectErrors_newArg_Some: "arg_collectErrors (newArg k v (Some e) it) \<noteq> []"
  by (simp add: newArg_def)

lemma valueToArg_undefined_optional:
  fixes env :: "('n::{plus,times,linorder}) env"
  assumes "\<not> saIsRequired sa"
  shows "valueToArg (Suc (Suc n)) env k JUndefined sa ctx = Ok None"
proof -
  have eq: "map (\<lambda>it. tryInferArgs (Suc n) env k JUndefined sa it ctx) (saInputTypes sa) =
      map (\<lambda>it. Ok None) (saInputTypes sa)"
    using assms by (simp add: tryInferArgs_undefined del: tryInferArgs.simps)
  show ?thesis
    unfolding valueToArg.simps valueToArg_body_def eq candidateLoop_all_none
    by (simp add: pickCandidate_def)
qed

lemma rbind_Ok_iff: "rbind m f = Ok y \<longleftrightarrow> (\<exists>x. m = Ok x \<and> f x = Ok y)"
  by (cases m) auto

lemma selectionTail_length:
  assumes "selectionTail env dmmf r ctx acc nm v fld ca = Ok res"
  shows "length res = Suc (length acc)"
  using assms
  by (auto simp: selectionTail_def Let_def rbind_Ok_iff split: if_splits)

lemma selectionChecks_count:
  assumes ok: "selectionChecks env dmmf r ctx [] nm v fld ca = Ok res"
    and nb: "\<not> (truthy (getProp v ''select'') \<and> truthy (getProp v ''include''))"
  shows "length res =
     (if truthy v \<and> truthy (getProp v ''include'') \<and>
         otrLocation (sfOutputType fld) = LOutputObjectTypes \<and>
         invalidIncludeKeys fld (getProp v ''include'') \<noteq> []
        then length (invalidIncludeKeys fld (getProp v ''include''))
      else 1)"
proof (cases "otrType (sfOutputType fld)")
  case (OObject ft)
  with ok nb show ?thesis
    by (auto simp: selectionChecks_def invalidIncludeKeys_def Let_def
        dest!: selectionTail_length split: if_splits)
next
  case (OScalar x)
  with ok nb show ?thesis
    by (auto simp: selectionChecks_def invalidIncludeKeys_def Let_def
        dest!: selectionTail_length split: if_splits)
next
  case (OEnum x y)
  with ok nb show ?thesis
    by (auto simp: selectionChecks_def invalidIncludeKeys_def Let_def
        dest!: selectionTail_length split: if_splits)
qed

lemma selectionStep_count:
  assumes ok: "selectionStep env dmmf r1 r2 tp cfs ctx [] (nm, v) = Ok res"
    and tv: "truthy v"
    and nb: "\<not> (truthy (getProp v ''select'') \<and> truthy (getProp v ''include''))"
  shows "length res = rootFieldCount cfs tp nm v"
proof (cases tp)
  case (OObject ot)
  show ?thesis
  proof (cases "find (\<lambda>f. sfName f = nm) (otFields ot)")
    case None
    with ok OObject show ?thesis
      by (auto simp: selectionStep_def rootFieldCount_def Let_def split: if_splits)
  next
    case (Some fld)
    have nf: "v \<noteq> JBool False" using tv by auto
    show ?thesis
    proof (cases "otrLocation (sfOutputType fld) = LScalar \<and> length (sfArgs fld) = 0 \<and>
                  typeof v \<noteq> ''boolean''")
      case True
      with ok OObject Some show ?thesis
        by (auto simp: selectionStep_def rootFieldCount_def Let_def)
    next
      case False
      with ok OObject Some nf obtain ca where
        "selectionChecks env dmmf r1 ctx [] nm v fld ca = Ok res"
        by (auto simp: selectionStep_def Let_def rbind_Ok_iff)
      from selectionChecks_count [OF this nb] tv Some OObject show ?thesis
        by (simp add: rootFieldCount_def)
    qed
  qed
next
  case (OScalar x)
  with ok show ?thesis by (simp add: selectionStep_def)
next
  case (OEnum x y)
  with ok show ?thesis by (simp add: selectionStep_def)
qed


lemmas selection_defs =
  makeDocument_def selectionToFields_body_def selectionStep_def selectionChecks_def
  selectionTail_def entriesOf_def containerError_def getDefaultSelection_def rootTypeName_def
  byToSelect_def

lemma includeAndSelect_two_root_fields:
  "\<exists>f g. makeDocument (Suc (Suc (Suc (Suc 0)))) refEnv exDmmf Query ''findManyUser''
     (JObj [(''include'', JObj [(''posts'', JBool True)]),
            (''select'', JObj [(''id'', JBool True)])]) None =
     Ok \<lparr>docType = Query, docChildren = [f, g]\<rparr>"
  by (simp add: selection_defs inference_defs collaborator_defs schema_defs Let_def)

lemma exRootDoc_compiled:
  "makeDocument (Suc (Suc (Suc (Suc 0)))) refEnv exDmmf Query ''findManyUser'' JUndefined None =
     Ok exRootDoc"
  by (simp add: selection_defs inference_defs collaborator_defs schema_defs Let_def
      exRootDoc_def exScalarChild_def)

lemma errorAnywhere_iff:
  "errorAnywhere f \<longleftrightarrow> fieldErr f \<noteq> None \<or> fieldHasInvalidArg f \<or> hasInvalidChild f"
proof (induction f rule: errorAnywhere.induct)
  case (1 n a cs e sf)
  show ?case
  proof (cases cs)
    case None
    then show ?thesis by (simp add: fieldHasInvalidArg_def)
  next
    case (Some xs)
    have "list_ex errorAnywhere xs \<longleftrightarrow>
        list_ex (\<lambda>c. fieldErr c \<noteq> None \<or> fieldHasInvalidArg c \<or> hasInvalidChild c) xs"
      using "1.IH" Some by (simp add: list_ex_iff)
    with Some show ?thesis by (simp add: fieldHasInvalidArg_def)
  qed
qed

lemma validate_Returned_iff:
  "validate doc sel top = Returned \<longleftrightarrow>
     (\<forall>c\<in>set (docChildren doc). \<not> hasInvalidChild c \<and> \<not> fieldHasInvalidArg c)"
  by (auto simp: validate_def Let_def filter_empty_conv)

lemma hasInvalidChild_errorAnywhere:
  "hasInvalidChild c \<longleftrightarrow>
     (case fieldChildren c of Some xs \<Rightarrow> list_ex errorAnywhere xs | None \<Rightarrow> False)"
  by (cases c) (auto simp: errorAnywhere_iff list_ex_iff split: option.splits)

lemma validate_Returned_errors:
  "validate doc sel top = Returned \<longleftrightarrow>
     (\<forall>c\<in>set (docChildren doc).
        \<not> fieldHasInvalidArg c \<and>
        (case fieldChildren c of Some xs \<Rightarrow> \<not> list_ex errorAnywhere xs | None \<Rightarrow> True))"
  unfolding validate_Returned_iff hasInvalidChild_errorAnywhere
  by (auto split: option.splits)

lemma updateMany_compilation_throws:
  "makeDocument (Suc (Suc (Suc (Suc (Suc (Suc (Suc 0))))))) refEnv exDmmf Mutation ''updateUser''
     (JObj [(''updateMany'', JObj [(''bogus'', JNum 1)])]) None = Throw TypeError"
  by (simp add: selection_defs inference_defs collaborator_defs schema_defs Let_def prefixPath_def)

lemma normalizePath_loop_strings:
  assumes "\<forall>k\<in>set p. \<exists>s. k = PStr s" "normalizePath_loop p ptr acc = Ok r"
  shows "r = acc @ p"
  using assms
  by (induction p ptr acc rule: normalizePath_loop.induct) (auto split: if_splits)

lemma scalar_list_path_has_no_index:
  "rbind
     (makeDocument (Suc (Suc (Suc (Suc (Suc (Suc (Suc 0))))))) refEnv exDmmf Query
        ''findManyUser'' (JObj [(''where'', JObj [(''id'', JStr ''x'')])]) None)
     (\<lambda>doc. Ok (validate doc (JObj [(''where'', JObj [(''id'', JStr ''x'')])]) False)) =
     Ok (PrismaClientValidationError []
          [([PStr ''where'', PStr ''id''], InvalidType ''id'' (JArr [JStr ''x'']))])"
  by (simp add: selection_defs inference_defs collaborator_defs schema_defs Let_def
      prefixPath_def validate_def fieldHasInvalidArg_def slicePath_def
      hasCorrectScalarType.simps)

lemmas remapper_defs =
  mapChild_def deserializeProp_def nestedProp_def overEntries_def wirePrimitive_def
  childKind_def isRelationChild_def

lemma mapScalars_falsy: "\<not> truthy d \<Longrightarrow> mapScalars host f d = Ok d"
  by (cases f) (simp split: option.splits)

lemma mapScalars_undefined: "mapScalars host f JUndefined = Ok JUndefined"
  by (simp add: mapScalars_falsy)



lemma getProp_not_own: "\<not> hasOwn e k \<Longrightarrow> getProp e k = JUndefined"
  by (cases e) (auto split: option.splits)

lemma storeNested_not_own: "\<not> hasOwn e k \<Longrightarrow> storeNested e k r = e"
  by (cases e) (auto split: option.splits)





























lemma endsWell_weaken: "endsWell host P m \<Longrightarrow> (\<And>r. P r \<Longrightarrow> Q r) \<Longrightarrow> endsWell host Q m"
  by (auto simp: endsWell_def)




lemma truthy_not_nullish: "truthy d \<Longrightarrow> \<not> nullish d"
  by (cases d) auto



lemma exUsersTree_compiled:
  "makeDocument (Suc (Suc (Suc (Suc (Suc (Suc (Suc (Suc 0)))))))) refEnv exDmmf Query ''findManyUser''
     (JObj [(''select'', JObj [(''id'', JBool True),
        (''posts'', JObj [(''select'', JObj [(''createdAt'', JBool True), (''id'', JBool True)])])])])
     None = Ok \<lparr>docType = Query, docChildren = [exUsersTree]\<rparr>"
  by (simp add: selection_defs inference_defs collaborator_defs schema_defs Let_def
      exUsersTree_def exPostsTree_def exCreatedAt_def exScalarChild_def)

lemmas example_defs =
  exUsersTree_def exPostsTree_def exCreatedAt_def exScalarChild_def exFindManyUser_def
  exUsers_def exUsersDecoded_def exPosts_def exPostsDecoded_def exUndated_def
  hostWithout_def exNames_def






lemma ex_decoded:
  "mapScalars (hostWithout exNames h) exUsersTree exUsers =
     rbind (deserialize h ''DateTime'' (JStr ''2020-01-01T00:00:00.000Z''))
       (\<lambda>x. Ok (exUsersDecoded x))"
  by (cases "deserialize h ''DateTime'' (JStr ''2020-01-01T00:00:00.000Z'')")
     (simp_all add: remapper_defs example_defs Let_def)



lemma hostWithout_same:
  assumes "\<forall>s\<in>set names. \<not> tableInherits h s \<and> (\<forall>v. \<not> builtinProp h v s)"
  shows "hostWithout names h = h"
proof -
  from assms have "(\<lambda>s. tableInherits h s \<and> s \<notin> set names) = tableInherits h"
    by (intro ext) auto
  moreover from assms have "(\<lambda>v k. builtinProp h v k \<and> k \<notin> set names) = builtinProp h"
    by (intro ext) auto
  ultimately show ?thesis by (simp add: hostWithout_def)
qed

lemma index_name_throws:
  "deserialize host ''DateTime'' (JStr ''a'') = Ok x \<Longrightarrow>
     mapScalars host exIndexTree (JArr [JStr ''abc'']) = Throw TypeError"
  by (simp add: remapper_defs exIndexTree_def Let_def parseIndex_def isDigit_def digitVal_def)

lemma mixed_child_throws:
  "deserialize host ''Json'' (JStr ''[null]'') = Ok (JArr [JNull]) \<Longrightarrow>
     mapScalars host exMixedTree (JObj [(''meta'', JStr ''[null]'')]) = Throw TypeError"
  by (simp add: remapper_defs exMixedTree_def exCreatedAt_def exFindManyUser_def Let_def)

lemma repeated_name_throws:
  "deserialize host ''Json'' (JStr ''[null]'') = Ok (JArr [JNull]) \<Longrightarrow>
     mapScalars host exRepeatedTree (JObj [(''meta'', JStr ''[null]'')]) = Throw TypeError"
  by (simp add: remapper_defs exRepeatedTree_def exCreatedAt_def exFindManyUser_def Let_def)

lemma builtin_name_is_the_hosts:
  "\<not> nullish e \<Longrightarrow> \<not> hasOwn e nm \<Longrightarrow> builtinProp host e nm \<Longrightarrow>
     deserializeProp host kind nm e = decodeBuiltin host kind nm e"
  by (simp add: deserializeProp_def)


section \<open>Null handling\<close>

text \<open>
  C4, the claim as stated fails: a required, non-nullable argument of scalar type
  \<^verbatim>\<open>Int\<close> that is explicitly set to \<^verbatim>\<open>null\<close> compiles to an Arg with no error at
  all, not to \<^verbatim>\<open>invalidNullArg\<close>. The null check at line 1409 is guarded by
  \<^verbatim>\<open>!isRequired\<close>, and the scalar check accepts \<^verbatim>\<open>null\<close>.
\<close>

theorem C4_required_null_counterexample:
  "tryInferArgs (Suc 0) refEnv ''age'' JNull exRequiredAge exInt noContext =
     Ok (Some (Arg ''age'' (VRaw JNull) None (Some exInt)))"
  by (simp add: inference_defs collaborator_defs schema_defs hasCorrectScalarType_null)

text \<open>
  C4, amended: \<^verbatim>\<open>null\<close> against an argument that is neither nullable nor required,
  for a candidate type that is not an input object type with a positive minimum number
  of fields, compiles to an Arg carrying \<^verbatim>\<open>invalidNullArg\<close>. For a required argument
  the null check is skipped: the compiled Arg never carries \<^verbatim>\<open>invalidNullArg\<close>, and
  against a candidate that is not a list and not an input object type the
  \<^verbatim>\<open>null\<close> is accepted without an error (unless the date check rejects it).
\<close>

theorem C4_null_handling:
  "(\<not> saIsNullable sa \<and> \<not> saIsRequired sa \<and>
    \<not> (isInputArgType (aitType it) \<and> minPositive (constraintsOf (aitType it))) \<longrightarrow>
      tryInferArgs (Suc n) env k JNull sa it ctx =
        Ok (Some (newArg k (VRaw JNull) (Some (InvalidNullArg k)) (Some it)))) \<and>
   (saIsRequired sa \<longrightarrow>
      (\<forall>a. tryInferArgs (Suc n) env k JNull sa it ctx = Ok (Some a) \<longrightarrow>
           argErr a \<noteq> Some (InvalidNullArg k))) \<and>
   (saIsRequired sa \<and> \<not> aitIsList it \<and> \<not> isInputArgType (aitType it) \<and>
    \<not> (isDate env JNull \<and> \<not> isValidDate env JNull) \<longrightarrow>
      tryInferArgs (Suc n) env k JNull sa it ctx =
        Ok (Some (newArg k (VRaw JNull) None (Some it))))"
proof (intro conjI impI allI)
  assume "\<not> saIsNullable sa \<and> \<not> saIsRequired sa \<and>
    \<not> (isInputArgType (aitType it) \<and> minPositive (constraintsOf (aitType it)))"
  then show "tryInferArgs (Suc n) env k JNull sa it ctx =
      Ok (Some (newArg k (VRaw JNull) (Some (InvalidNullArg k)) (Some it)))"
    by (simp add: tryInferArgs_body_def)
next
  fix a
  assume "saIsRequired sa" and "tryInferArgs (Suc n) env k JNull sa it ctx = Ok (Some a)"
  then show "argErr a \<noteq> Some (InvalidNullArg k)"
    by (auto simp: tryInferArgs_body_def tryInferArgs_object_def tryInferArgs_list_def
        Let_def scalarToArg_not_null_error getInvalidTypeArg_def
        split: if_splits res.splits option.splits prod.splits elim!: rbind.elims)
next
  assume "saIsRequired sa \<and> \<not> aitIsList it \<and> \<not> isInputArgType (aitType it) \<and>
    \<not> (isDate env JNull \<and> \<not> isValidDate env JNull)"
  then show "tryInferArgs (Suc n) env k JNull sa it ctx =
      Ok (Some (newArg k (VRaw JNull) None (Some it)))"
    by (auto simp: tryInferArgs_body_def scalarToArg_def hasCorrectScalarType_null)
qed

theorem C4_null_handling_witness:
  "tryInferArgs (Suc 0) refEnv ''age'' JNull exOptionalAge exInt noContext =
     Ok (Some (newArg ''age'' (VRaw JNull) (Some (InvalidNullArg ''age'')) (Some exInt))) \<and>
   tryInferArgs (Suc 0) refEnv ''age'' JNull exRequiredAge exInt noContext =
     Ok (Some (newArg ''age'' (VRaw JNull) None (Some exInt))) \<and>
   argErr (newArg ''age'' (VRaw JNull) None (Some exInt)) \<noteq> Some (InvalidNullArg ''age'')"
proof -
  have opt: "\<not> saIsNullable exOptionalAge \<and> \<not> saIsRequired exOptionalAge \<and>
      \<not> (isInputArgType (aitType exInt) \<and> minPositive (constraintsOf (aitType exInt)))"
    by (simp add: schema_defs)
  have req: "saIsRequired exRequiredAge \<and> \<not> aitIsList exInt \<and> \<not> isInputArgType (aitType exInt) \<and>
      \<not> (isDate refEnv JNull \<and> \<not> isValidDate refEnv JNull)"
    by (simp add: schema_defs)
  from C4_null_handling [of exOptionalAge exInt 0 refEnv "''age''" noContext] opt
  have 1: "tryInferArgs (Suc 0) refEnv ''age'' JNull exOptionalAge exInt noContext =
      Ok (Some (newArg ''age'' (VRaw JNull) (Some (InvalidNullArg ''age'')) (Some exInt)))"
    by blast
  from C4_null_handling [of exRequiredAge exInt 0 refEnv "''age''" noContext] req
  have 2: "tryInferArgs (Suc 0) refEnv ''age'' JNull exRequiredAge exInt noContext =
      Ok (Some (newArg ''age'' (VRaw JNull) None (Some exInt)))"
    and 3: "\<forall>a. tryInferArgs (Suc 0) refEnv ''age'' JNull exRequiredAge exInt noContext = Ok (Some a) \<longrightarrow>
           argErr a \<noteq> Some (InvalidNullArg ''age'')"
    by blast+
  from 2 3 have "argErr (newArg ''age'' (VRaw JNull) None (Some exInt)) \<noteq> Some (InvalidNullArg ''age'')"
    by blast
  with 1 2 show ?thesis by blast
qed

section \<open>List-shaped declared types\<close>

text \<open>
  C9: for a list-shaped candidate type, a provided value that is not a list (and that
  the missing and null checks before have let through) is compiled exactly as the
  single-element list holding it, whatever the key, except the key \<^verbatim>\<open>updateMany\<close>:
  for that key the value is never wrapped and reaches the list-shaped compilation as it
  was provided.
\<close>

theorem C9_list_wrapping:
  "(aitIsList it \<and> \<not> isArray v \<and> v \<noteq> JUndefined \<and> k \<noteq> ''updateMany'' \<and>
    \<not> (v = JNull \<and> \<not> saIsNullable sa \<and> \<not> saIsRequired sa \<and>
       \<not> (isInputArgType (aitType it) \<and> minPositive (constraintsOf (aitType it)))) \<longrightarrow>
      wrapForList k v it = JArr [v] \<and>
      tryInferArgs (Suc n) env k v sa it ctx = tryInferArgs (Suc n) env k (JArr [v]) sa it ctx \<and>
      tryInferArgs (Suc n) env k v sa it ctx =
        tryInferArgs_list env (\<lambda>x tp c. objectToArgs n env x tp c) k (JArr [v]) sa it ctx) \<and>
   (aitIsList it \<and> v \<noteq> JUndefined \<and>
    \<not> (v = JNull \<and> \<not> saIsNullable sa \<and> \<not> saIsRequired sa \<and>
       \<not> (isInputArgType (aitType it) \<and> minPositive (constraintsOf (aitType it)))) \<longrightarrow>
      wrapForList ''updateMany'' v it = v \<and>
      tryInferArgs (Suc n) env ''updateMany'' v sa it ctx =
        tryInferArgs_list env (\<lambda>x tp c. objectToArgs n env x tp c) ''updateMany'' v sa it ctx)"
proof (intro conjI impI)
  assume a: "aitIsList it \<and> \<not> isArray v \<and> v \<noteq> JUndefined \<and> k \<noteq> ''updateMany'' \<and>
    \<not> (v = JNull \<and> \<not> saIsNullable sa \<and> \<not> saIsRequired sa \<and>
       \<not> (isInputArgType (aitType it) \<and> minPositive (constraintsOf (aitType it))))"
  then have t: "typeof v \<noteq> ''undefined''"
    by (simp add: typeof_undefined_iff)
  from a show w: "wrapForList k v it = JArr [v]"
    by (simp add: wrapForList_def)
  have w': "wrapForList k (JArr [v]) it = JArr [v]"
    by (simp add: wrapForList_def)
  from a t show "tryInferArgs (Suc n) env k v sa it ctx =
      tryInferArgs (Suc n) env k (JArr [v]) sa it ctx"
    by (auto simp: tryInferArgs_body_def w w')
  from a t show "tryInferArgs (Suc n) env k v sa it ctx =
      tryInferArgs_list env (\<lambda>x tp c. objectToArgs n env x tp c) k (JArr [v]) sa it ctx"
    by (auto simp: tryInferArgs_body_def w)
next
  assume a: "aitIsList it \<and> v \<noteq> JUndefined \<and>
    \<not> (v = JNull \<and> \<not> saIsNullable sa \<and> \<not> saIsRequired sa \<and>
       \<not> (isInputArgType (aitType it) \<and> minPositive (constraintsOf (aitType it))))"
  then have t: "typeof v \<noteq> ''undefined''"
    by (simp add: typeof_undefined_iff)
  show w: "wrapForList ''updateMany'' v it = v"
    by (simp add: wrapForList_def)
  from a t show "tryInferArgs (Suc n) env ''updateMany'' v sa it ctx =
      tryInferArgs_list env (\<lambda>x tp c. objectToArgs n env x tp c) ''updateMany'' v sa it ctx"
    by (auto simp: tryInferArgs_body_def w)
qed

theorem C9_list_wrapping_witness:
  "tryInferArgs (Suc 0) refEnv ''id'' (JNum 5) exIdArg exIntList noContext =
     tryInferArgs (Suc 0) refEnv ''id'' (JArr [JNum 5]) exIdArg exIntList noContext \<and>
   tryInferArgs (Suc 0) refEnv ''id'' (JArr [JNum 5]) exIdArg exIntList noContext =
     Ok (Some (Arg ''id'' (VRaw (JArr [JNum 5])) None (Some exIntList))) \<and>
   wrapForList ''updateMany'' (JNum 5) exIntList = JNum 5"
proof -
  have h: "aitIsList exIntList \<and> \<not> isArray (JNum 5) \<and> JNum 5 \<noteq> JUndefined \<and>
      ''id'' \<noteq> ''updateMany'' \<and>
      \<not> (JNum 5 = JNull \<and> \<not> saIsNullable exIdArg \<and> \<not> saIsRequired exIdArg \<and>
         \<not> (isInputArgType (aitType exIntList) \<and> minPositive (constraintsOf (aitType exIntList))))"
    by (simp add: schema_defs)
  have h2: "aitIsList exIntList \<and> JNum 5 \<noteq> JUndefined \<and>
      \<not> (JNum 5 = JNull \<and> \<not> saIsNullable exIdArg \<and> \<not> saIsRequired exIdArg \<and>
         \<not> (isInputArgType (aitType exIntList) \<and> minPositive (constraintsOf (aitType exIntList))))"
    by (simp add: schema_defs)
  note inst = C9_list_wrapping [of exIntList "JNum 5" "''id''" exIdArg 0 refEnv noContext]
  from inst h have 1: "tryInferArgs (Suc 0) refEnv ''id'' (JNum 5) exIdArg exIntList noContext =
      tryInferArgs (Suc 0) refEnv ''id'' (JArr [JNum 5]) exIdArg exIntList noContext"
    by blast
  from inst h2 have 3: "wrapForList ''updateMany'' (JNum 5) exIntList = JNum 5"
    by blast
  have 2: "tryInferArgs (Suc 0) refEnv ''id'' (JArr [JNum 5]) exIdArg exIntList noContext =
      Ok (Some (Arg ''id'' (VRaw (JArr [JNum 5])) None (Some exIntList)))"
    by (simp add: inference_defs collaborator_defs schema_defs hasCorrectScalarType.simps)
  from 1 2 3 show ?thesis by blast
qed


section \<open>Union resolution\<close>



section \<open>Missing handling\<close>

text \<open>
  C5, the claim as stated fails: an optional argument given as \<^verbatim>\<open>undefined\<close> is not
  always omitted from the compiled Args. When a required sibling is missing,
  \<^verbatim>\<open>objectToArgs\<close> appends the optional argument as an Arg carrying
  \<^verbatim>\<open>missingArg\<close> (lines 1683 to 1709).
\<close>

theorem C5_undefined_sibling_counterexample:
  "objectToArgs (Suc (Suc (Suc 0))) refEnv (JObj [(''email'', JUndefined)]) (AInput exCreateInput)
     noContext =
     Ok (Args
       [Arg ''name'' (VRaw JUndefined) (Some (MissingArg ''name'' True False False)) (Some exString),
        Arg ''email'' (VRaw JUndefined) (Some (MissingArg ''email'' False False False))
          (Some exString)])"
  by (simp add: inference_defs collaborator_defs schema_defs)

text \<open>
  C5, amended: \<^verbatim>\<open>undefined\<close> compiles in \<^verbatim>\<open>tryInferArgs\<close> to no Arg when the
  argument is not required and to an Arg carrying \<^verbatim>\<open>missingArg\<close> when it is
  required; \<^verbatim>\<open>valueToArg\<close> returns the same (for a required argument that declares at
  least one candidate type), and the pass of \<^verbatim>\<open>objectToArgs\<close> over the keys adds
  nothing for an optional argument that is \<^verbatim>\<open>undefined\<close>.
\<close>

theorem C5_missing_handling:
  fixes env :: "('n::{plus,times,linorder}) env"
  shows
  "tryInferArgs (Suc n) env k JUndefined sa it ctx =
     (if saIsRequired sa
      then Ok (Some (newArg k (VRaw JUndefined) (Some (MissingArg k True False False)) (Some it)))
      else Ok None) \<and>
   (\<not> saIsRequired sa \<longrightarrow> valueToArg (Suc (Suc n)) env k JUndefined sa ctx = Ok None) \<and>
   (saIsRequired sa \<and> saInputTypes sa \<noteq> [] \<longrightarrow>
      (\<exists>it'\<in>set (saInputTypes sa).
         valueToArg (Suc (Suc n)) env k JUndefined sa ctx =
           Ok (Some (newArg k (VRaw JUndefined) (Some (MissingArg k True False False))
                       (Some it'))))) \<and>
   (\<not> saIsRequired sa \<and> find (\<lambda>a. saName a = k) (itFields t) = Some sa \<longrightarrow>
      objectToArgs_entry (\<lambda>argName x s c. valueToArg (Suc (Suc n)) env argName x s c) t ctx
        (k, JUndefined) = Ok None)"
proof (intro conjI impI)
  show "tryInferArgs (Suc n) env k JUndefined sa it ctx =
     (if saIsRequired sa
      then Ok (Some (newArg k (VRaw JUndefined) (Some (MissingArg k True False False)) (Some it)))
      else Ok None)"
    by (rule tryInferArgs_undefined)
next
  assume opt: "\<not> saIsRequired sa"
  then show "valueToArg (Suc (Suc n)) env k JUndefined sa ctx = Ok None"
    by (rule valueToArg_undefined_optional)
next
  assume req: "saIsRequired sa \<and> saInputTypes sa \<noteq> []"
  then have "\<forall>it\<in>set (saInputTypes sa). \<exists>a.
      tryInferArgs (Suc n) env k JUndefined sa it ctx = Ok (Some a) \<and> arg_collectErrors a \<noteq> []"
    by (simp add: tryInferArgs_undefined collectErrors_newArg_Some del: tryInferArgs.simps)
  with req valueToArg_all_fail [of sa "Suc n" env k JUndefined ctx]
  obtain it' a where "it' \<in> set (saInputTypes sa)"
    "tryInferArgs (Suc n) env k JUndefined sa it' ctx = Ok (Some a)"
    "valueToArg (Suc (Suc n)) env k JUndefined sa ctx = Ok (Some a)"
    by auto
  with req show "\<exists>it'\<in>set (saInputTypes sa).
         valueToArg (Suc (Suc n)) env k JUndefined sa ctx =
           Ok (Some (newArg k (VRaw JUndefined) (Some (MissingArg k True False False))
                       (Some it')))"
    by (auto simp: tryInferArgs_undefined simp del: tryInferArgs.simps valueToArg.simps)
next
  assume a: "\<not> saIsRequired sa \<and> find (\<lambda>a. saName a = k) (itFields t) = Some sa"
  then have "valueToArg (Suc (Suc n)) env k JUndefined sa ctx = Ok None"
    by (simp add: valueToArg_undefined_optional del: valueToArg.simps)
  with a show "objectToArgs_entry (\<lambda>argName x s c. valueToArg (Suc (Suc n)) env argName x s c) t ctx
        (k, JUndefined) = Ok None"
    by (simp add: objectToArgs_entry_def del: valueToArg.simps)
qed

theorem C5_missing_handling_witness:
  "valueToArg (Suc (Suc 0)) refEnv ''age'' JUndefined exOptionalAge noContext = Ok None \<and>
   valueToArg (Suc (Suc 0)) refEnv ''age'' JUndefined exRequiredAge noContext =
     Ok (Some (newArg ''age'' (VRaw JUndefined) (Some (MissingArg ''age'' True False False))
                 (Some exInt))) \<and>
   objectToArgs_entry (\<lambda>argName x s c. valueToArg (Suc (Suc 0)) refEnv argName x s c)
     exWhereInput noContext (''age'', JUndefined) = Ok None"
proof -
  note inst = C5_missing_handling [of 0 refEnv "''age''" _ exInt noContext exWhereInput]
  have o: "\<not> saIsRequired exOptionalAge" by (simp add: exOptionalAge_def)
  have r: "saIsRequired exRequiredAge \<and> saInputTypes exRequiredAge \<noteq> []"
    by (simp add: exRequiredAge_def)
  have f: "\<not> saIsRequired exOptionalAge \<and>
      find (\<lambda>a. saName a = ''age'') (itFields exWhereInput) = Some exOptionalAge"
    by (simp add: schema_defs)
  have 1: "valueToArg (Suc (Suc 0)) refEnv ''age'' JUndefined exOptionalAge noContext = Ok None"
    by (rule inst [of exOptionalAge, THEN conjunct2, THEN conjunct1, THEN mp, OF o])
  have "\<exists>it'\<in>set (saInputTypes exRequiredAge).
         valueToArg (Suc (Suc 0)) refEnv ''age'' JUndefined exRequiredAge noContext =
           Ok (Some (newArg ''age'' (VRaw JUndefined) (Some (MissingArg ''age'' True False False))
                       (Some it')))"
    by (rule inst [of exRequiredAge, THEN conjunct2, THEN conjunct2, THEN conjunct1, THEN mp, OF r])
  then have 2: "valueToArg (Suc (Suc 0)) refEnv ''age'' JUndefined exRequiredAge noContext =
     Ok (Some (newArg ''age'' (VRaw JUndefined) (Some (MissingArg ''age'' True False False))
                 (Some exInt)))"
    by (simp add: exRequiredAge_def del: valueToArg.simps)
  have 3: "objectToArgs_entry (\<lambda>argName x s c. valueToArg (Suc (Suc 0)) refEnv argName x s c)
     exWhereInput noContext (''age'', JUndefined) = Ok None"
    by (rule inst [of exOptionalAge, THEN conjunct2, THEN conjunct2, THEN conjunct2, THEN mp, OF f])
  from 1 2 3 show ?thesis by (simp del: valueToArg.simps)
qed

section \<open>Scalar subtype compatibility\<close>

text \<open>
  C6, the claim as stated fails: against the declared kind \<^verbatim>\<open>Json\<close> the claimed rule
  accepts every value that is neither a tagged enum value nor a field-ref marker, so it
  accepts a symbol; \<^verbatim>\<open>hasCorrectScalarType\<close> rejects a value whose inferred kind is
  \<^verbatim>\<open>Symbol\<close> (line 1210).
\<close>

theorem C6_symbol_json_counterexample:
  "specAccepts refEnv JSymbol exJson noContext \<and>
   \<not> hasCorrectScalarType refEnv JSymbol exJson noContext"
  by (simp add: specAccepts_def specAcceptsScalar_def hasCorrectScalarType.simps
      getExpectedType_def collaborator_defs schema_defs)

text \<open>
  C6, amended: a value is accepted exactly when its inferred kind equals the declared
  kind, or one of the one-directional subtype rules applies, or the declared kind is a
  list kind and the inferred kind is that of the empty list, or the declared kind is
  \<^verbatim>\<open>Json\<close> and the value is neither of inferred kind \<^verbatim>\<open>Symbol\<close> nor a tagged
  enum value nor a field-ref marker, or the value is \<^verbatim>\<open>null\<close>, or the value is a
  list against a list kind and every element is accepted against the element kind.
\<close>

theorem C6_scalar_compatibility:
  "hasCorrectScalarType env v it ctx =
     (let declared = getExpectedType env it ctx;
          inferred = getGraphQLType env v it
      in inferred = declared \<or> subtypeRule inferred declared v \<or>
         (aitIsList it \<and> inferred = ''List<>'') \<or>
         (declared = ''Json'' \<and> inferred \<noteq> ''Symbol'' \<and>
          \<not> isObjectEnumValue v \<and> \<not> isFieldRefImpl v) \<or>
         v = JNull \<or>
         (aitIsList it \<and> isArray v \<and>
          list_all (\<lambda>x. hasCorrectScalarType env x (scalarType it) ctx) (arrayElems v)))"
  by (subst hasCorrectScalarType.simps) (auto simp: Let_def subtypeRule_def)

theorem C6_scalar_compatibility_witness:
  "hasCorrectScalarType refEnv (JNum 1) exFloat noContext \<and>
   hasCorrectScalarType refEnv (JArr [JNum 1, JNull]) exIntList noContext \<and>
   \<not> hasCorrectScalarType refEnv (JStr ''1'') exInt noContext"
proof -
  have 1: "hasCorrectScalarType refEnv (JNum 1) exFloat noContext"
    by (subst C6_scalar_compatibility)
      (simp add: subtypeRule_def getExpectedType_def collaborator_defs schema_defs)
  have e1: "hasCorrectScalarType refEnv (JNum 1) (scalarType exIntList) noContext"
    by (subst C6_scalar_compatibility)
      (simp add: subtypeRule_def getExpectedType_def scalarType_def collaborator_defs schema_defs)
  have e2: "hasCorrectScalarType refEnv JNull (scalarType exIntList) noContext"
    by (subst C6_scalar_compatibility) (simp add: Let_def)
  have 2: "hasCorrectScalarType refEnv (JArr [JNum 1, JNull]) exIntList noContext"
    using e1 e2 by (subst C6_scalar_compatibility) (simp add: Let_def schema_defs)
  have 3: "\<not> hasCorrectScalarType refEnv (JStr ''1'') exInt noContext"
    by (subst C6_scalar_compatibility)
      (simp add: subtypeRule_def getExpectedType_def collaborator_defs schema_defs)
  from 1 2 3 show ?thesis by simp
qed


section \<open>Deselected fields\<close>

text \<open>
  C7, the claim as stated fails: a falsy selection value other than \<^verbatim>\<open>false\<close> does
  not omit the field. For the scalar field \<^verbatim>\<open>age\<close> the value \<^verbatim>\<open>0\<close> produces a
  Field carrying \<^verbatim>\<open>invalidFieldType\<close>; the test at line 942 is \<^verbatim>\<open>value === false\<close>.
\<close>

theorem C7_falsy_counterexample:
  "selectionToFields (Suc 0) refEnv exDmmf (JObj [(''age'', JNum 0)]) exFindManyUser noContext =
     Ok [Field ''age'' None (Some []) (Some (InvalidFieldType ''User'' ''age'' (JNum 0))) None]"
  by (simp add: selectionToFields_body_def selectionStep_def selectionChecks_def entriesOf_def
      modelNameTruthy_def Let_def collaborator_defs schema_defs)

text \<open>
  C7, amended: for a key that names a known schema field, the selection value
  \<^verbatim>\<open>false\<close> leaves the produced Field list as it was: no Field node and no error is
  emitted for that key.
\<close>

theorem C7_false_omits:
  assumes "find (\<lambda>f. sfName f = nm) (otFields outputType) = Some fld"
  shows "selectionStep env dmmf selectionToFields_rec objectToArgs_rec (OObject outputType)
           computedFields ctx acc (nm, JBool False) = Ok acc"
  using assms by (simp add: selectionStep_def)

theorem C7_false_omits_witness:
  "find (\<lambda>f. sfName f = ''posts'') (otFields exUserType) =
      Some (SchemaField ''posts'' []
          (OutputTypeRef True (OObject exPostType) LOutputObjectTypes (Some ''model''))) \<and>
   selectionStep refEnv exDmmf (\<lambda>s f c. selectionToFields 0 refEnv exDmmf s f c)
     (\<lambda>obj tp c. objectToArgs 0 refEnv obj tp c) (OObject exUserType) [] noContext []
     (''posts'', JBool False) = Ok []"
proof -
  have f: "find (\<lambda>f. sfName f = ''posts'') (otFields exUserType) =
      Some (SchemaField ''posts'' []
          (OutputTypeRef True (OObject exPostType) LOutputObjectTypes (Some ''model'')))"
    by (simp add: exUserType_def)
  from f C7_false_omits [OF f, of refEnv exDmmf "\<lambda>s f c. selectionToFields 0 refEnv exDmmf s f c"
      "\<lambda>obj tp c. objectToArgs 0 refEnv obj tp c" "[]" noContext "[]"]
  show ?thesis by (rule conjI)
qed

section \<open>Root fields of a document\<close>

text \<open>
  C8, the claim as stated fails: a root selection whose \<^verbatim>\<open>include\<close> lists two keys
  that name no relation of the root field's type compiles to a Document with two root
  fields, one per rejected key (lines 1019 to 1043).
\<close>

theorem C8_invalid_include_keys_counterexample:
  "makeDocument (Suc (Suc (Suc (Suc 0)))) refEnv exDmmf Query ''findManyUser''
     (JObj [(''include'', JObj [(''foo'', JBool True), (''bar'', JBool True)])]) None =
     Ok \<lparr>docType = Query,
         docChildren =
           [containerError ''foo'' ''foo'' (InvalidFieldName ''User'' ''foo'' True False),
            containerError ''bar'' ''bar'' (InvalidFieldName ''User'' ''bar'' True False)]\<rparr>"
  by (simp add: selection_defs inference_defs collaborator_defs schema_defs Let_def)

text \<open>
  C8, amended: when the root selection does not carry \<^verbatim>\<open>select\<close> and
  \<^verbatim>\<open>include\<close> together and the computed-field expansion leaves the root selection
  as it is, a Document produced by \<^verbatim>\<open>makeDocument\<close> has exactly one root field,
  except that it has one root field per rejected include key when the root field is a
  relation whose \<^verbatim>\<open>include\<close> lists keys that name no relation of its type, and none
  when the root field name is unknown to the root type and names a computed field.
\<close>

theorem C8_root_fields:
  assumes ok: "makeDocument fuel env dmmf kind rootField select0 mName = Ok doc"
    and sel: "sel = (if \<not> truthy select0 then JObj [] else select0)"
    and rt: "rootType = (case kind of Query \<Rightarrow> queryType dmmf | Mutation \<Rightarrow> mutationType dmmf)"
    and cfs: "cfs = (if modelNameTruthy \<lparr>modelName = mName\<rparr>
                     then getAllComputedFields env (the mName) else [])"
    and ac: "applyComputedFieldsToSelection env (JObj [(rootField, sel)]) cfs =
               JObj [(rootField, sel)]"
    and nb: "\<not> (truthy (getProp sel ''select'') \<and> truthy (getProp sel ''include''))"
  shows "length (docChildren doc) = rootFieldCount cfs rootType rootField sel"
proof -
  have tv: "truthy sel" using sel by simp
  obtain n where fuel: "fuel = Suc n"
    using ok by (cases fuel) (simp_all add: makeDocument_def Let_def)
  let ?fake = "SchemaField (rootTypeName kind) [] (OutputTypeRef False rootType LOutputObjectTypes None)"
  from ok obtain children where
    ch: "selectionToFields (Suc n) env dmmf (JObj [(rootField, sel)]) ?fake \<lparr>modelName = mName\<rparr> =
           Ok children"
    and doc: "doc = \<lparr>docType = kind, docChildren = children\<rparr>"
    unfolding makeDocument_def fuel sel rt
    by (auto simp: Let_def rbind_Ok_iff simp del: selectionToFields.simps)
  have cfs': "(if modelNameTruthy \<lparr>modelName = mName\<rparr>
               then getAllComputedFields env (the (modelName \<lparr>modelName = mName\<rparr>)) else []) = cfs"
    using cfs by simp
  have "selectionStep env dmmf (\<lambda>s f c. selectionToFields n env dmmf s f c)
       (\<lambda>obj tp c. objectToArgs n env obj tp c) rootType cfs \<lparr>modelName = mName\<rparr> []
       (rootField, sel) = Ok children"
    using ch unfolding selectionToFields.simps selectionToFields_body_def Let_def cfs' ac
    by (simp add: entriesOf_def rbind_Ok_iff)
  from selectionStep_count [OF this tv nb] doc show ?thesis by simp
qed

theorem C8_root_fields_witness:
  "makeDocument (Suc (Suc (Suc (Suc 0)))) refEnv exDmmf Query ''findManyUser'' JUndefined None =
     Ok exRootDoc \<and>
   length (docChildren exRootDoc) = 1 \<and>
   rootFieldCount [] (queryType exDmmf) ''findManyUser'' (JObj []) = 1"
proof -
  have sel: "JObj [] = (if \<not> truthy JUndefined then JObj [] else JUndefined)" by simp
  have rt: "queryType exDmmf = (case Query of Query \<Rightarrow> queryType exDmmf | Mutation \<Rightarrow> mutationType exDmmf)"
    by simp
  have cfs: "[] = (if modelNameTruthy \<lparr>modelName = None\<rparr>
                     then getAllComputedFields refEnv (the None) else [])"
    by (simp add: modelNameTruthy_def)
  have ac: "applyComputedFieldsToSelection refEnv (JObj [(''findManyUser'', JObj [])]) [] =
               JObj [(''findManyUser'', JObj [])]"
    by simp
  have nb: "\<not> (truthy (getProp (JObj []) ''select'') \<and> truthy (getProp (JObj []) ''include''))"
    by simp
  have c: "rootFieldCount [] (queryType exDmmf) ''findManyUser'' (JObj []) = 1"
    by (simp add: rootFieldCount_def exDmmf_def exFindManyUser_def)
  from C8_root_fields [OF exRootDoc_compiled sel rt cfs ac nb]
  have "length (docChildren exRootDoc) = rootFieldCount [] (queryType exDmmf) ''findManyUser'' (JObj [])" .
  with c exRootDoc_compiled show ?thesis by (simp del: makeDocument_def)
qed

section \<open>Raising the validation error\<close>

text \<open>
  C1, at an input where the code departs from the claim: a root field name that the
  root type does not know compiles to a Document whose root field carries
  \<^verbatim>\<open>invalidFieldName\<close>, so the tree contains an error; \<^verbatim>\<open>validate\<close> filters the
  root fields by \<^verbatim>\<open>hasInvalidChild || hasInvalidArg\<close> only (line 75), finds none and
  returns without raising. The constructor of \<^verbatim>\<open>Field\<close> counts a child's own error
  (line 498); the filter of \<^verbatim>\<open>validate\<close> does not.
\<close>

theorem C1_root_error_not_raised:
  "makeDocument (Suc 0) refEnv exDmmf Query ''findManyUsr'' JUndefined None = Ok exUnknownRootDoc \<and>
   list_ex errorAnywhere (docChildren exUnknownRootDoc) \<and>
   validate exUnknownRootDoc JUndefined False = Returned"
  by (simp add: selection_defs collaborator_defs schema_defs Let_def modelNameTruthy_def
      exUnknownRootDoc_def validate_def fieldHasInvalidArg_def)

section \<open>Path normalization\<close>

text \<open>
  C3, at an input where the code departs from the claim: the argument \<^verbatim>\<open>data\<close> is
  declared as a list of input objects and the caller passes one object, which the
  compiler wraps. The diagnostics carry the index as the string \<^verbatim>\<open>"0"\<close>
  (\<^verbatim>\<open>String(index)\<close>, line 788); \<^verbatim>\<open>normalizePath\<close> drops a key only when it is
  the number \<^verbatim>\<open>0\<close> (line 438), so the index stays and the reported path is
  \<^verbatim>\<open>data.0.bogus\<close>, although the caller's \<^verbatim>\<open>data\<close> is not an array.
\<close>

theorem C3_zero_index_kept:
  "rbind
     (makeDocument (Suc (Suc (Suc (Suc (Suc (Suc (Suc 0))))))) refEnv exDmmf Mutation
        ''createManyUser'' (JObj [(''data'', JObj [(''bogus'', JNum 1)])]) None)
     (\<lambda>doc. Ok (validate doc (JObj [(''data'', JObj [(''bogus'', JNum 1)])]) False)) =
     Ok (PrismaClientValidationError []
          [([PStr ''data'', PStr ''0'', PStr ''bogus''],
            InvalidName ''bogus'' (JNum 1) ''UserCreateManyInput''),
           ([PStr ''data'', PStr ''0'', PStr ''name''], MissingArg ''name'' True False False),
           ([PStr ''data'', PStr ''0'', PStr ''email''], MissingArg ''email'' False False False)]) \<and>
   \<not> isArray (getProp (JObj [(''data'', JObj [(''bogus'', JNum 1)])]) ''data'') \<and>
   rbind
     (normalizePath [PStr ''data'', PStr ''0'', PStr ''bogus'']
        (JObj [(''data'', JObj [(''bogus'', JNum 1)])]))
     (\<lambda>p. Ok (joinPath p)) = Ok ''data.0.bogus''"
proof -
  have 1: "rbind
     (makeDocument (Suc (Suc (Suc (Suc (Suc (Suc (Suc 0))))))) refEnv exDmmf Mutation
        ''createManyUser'' (JObj [(''data'', JObj [(''bogus'', JNum 1)])]) None)
     (\<lambda>doc. Ok (validate doc (JObj [(''data'', JObj [(''bogus'', JNum 1)])]) False)) =
     Ok (PrismaClientValidationError []
          [([PStr ''data'', PStr ''0'', PStr ''bogus''],
            InvalidName ''bogus'' (JNum 1) ''UserCreateManyInput''),
           ([PStr ''data'', PStr ''0'', PStr ''name''], MissingArg ''name'' True False False),
           ([PStr ''data'', PStr ''0'', PStr ''email''], MissingArg ''email'' False False False)])"
    by (simp add: selection_defs inference_defs collaborator_defs schema_defs Let_def
        prefixPath_def validate_def fieldHasInvalidArg_def slicePath_def showNat.simps
        digitChar_def)
  have 2: "rbind
     (normalizePath [PStr ''data'', PStr ''0'', PStr ''bogus'']
        (JObj [(''data'', JObj [(''bogus'', JNum 1)])]))
     (\<lambda>p. Ok (joinPath p)) = Ok ''data.0.bogus''"
    by (simp add: normalizePath_def keyString_def)
  from 1 2 show ?thesis by simp
qed


section \<open>The result scalar remapper on response payloads\<close>




end
